theory Spec2Isabelle
  imports Complex_Main "HOL-Library.Sublist" "HOL-Library.Product_Lexorder"
begin

section \<open>Python string primitives used by the backend\<close>

text \<open>
  Strings are lists of 8-bit characters; the catalog and the alias tables of
  \<^verbatim>\<open>backend/app.py\<close> are plain ASCII.  \<open>lower\<close> is \<^verbatim>\<open>str.lower\<close> on
  ASCII letters, \<open>is_space\<close> the ASCII characters for which \<^verbatim>\<open>str.isspace\<close> holds,
  \<open>strip\<close> is \<^verbatim>\<open>str.strip()\<close>, \<open>split_ws\<close> is \<^verbatim>\<open>str.split()\<close> without
  argument.  Python's \<^verbatim>\<open>a in b\<close> on strings is \<^const>\<open>sublist\<close> (a contiguous
  block), \<^verbatim>\<open>b.startswith(a)\<close> is \<^const>\<open>prefix\<close>.
\<close>

definition upper_letters :: string where
  "upper_letters = ''ABCDEFGHIJKLMNOPQRSTUVWXYZ''"

definition lower_letters :: string where
  "lower_letters = ''abcdefghijklmnopqrstuvwxyz''"

definition lower_char :: "char \<Rightarrow> char" where
  "lower_char c = (case map_of (zip upper_letters lower_letters) c of Some d \<Rightarrow> d | None \<Rightarrow> c)"

definition upper_char :: "char \<Rightarrow> char" where
  "upper_char c = (case map_of (zip lower_letters upper_letters) c of Some d \<Rightarrow> d | None \<Rightarrow> c)"

definition lower :: "string \<Rightarrow> string" where
  "lower s = map lower_char s"

definition upper :: "string \<Rightarrow> string" where
  "upper s = map upper_char s"

definition is_space :: "char \<Rightarrow> bool" where
  "is_space c = (c \<in> set [CHR 0x09, CHR 0x0A, CHR 0x0B, CHR 0x0C, CHR 0x0D,
                            CHR 0x1C, CHR 0x1D, CHR 0x1E, CHR 0x1F, CHR 0x20])"

definition strip :: "string \<Rightarrow> string" where
  "strip s = rev (dropWhile is_space (rev (dropWhile is_space s)))"

fun split_acc :: "string \<Rightarrow> string \<Rightarrow> string list" where
  "split_acc cur [] = (if cur = [] then [] else [rev cur])"
| "split_acc cur (c # cs) =
     (if is_space c
      then (if cur = [] then split_acc [] cs else rev cur # split_acc [] cs)
      else split_acc (c # cur) cs)"

definition split_ws :: "string \<Rightarrow> string list" where
  "split_ws s = split_acc [] s"

section \<open>Catalog: routes and stops\<close>

record route =
  rid :: string
  rname :: string
  rfrom :: string
  rto :: string
  via :: string
  fare_min :: int
  fare_max :: int
  frequency_min :: int

record stop =
  sid :: string
  sname :: string
  lat :: real
  lng :: real
  routes :: "string list"

text \<open>
  The entries of \<^verbatim>\<open>BUS_ROUTES\<close> and \<^verbatim>\<open>BUS_STOPS\<close>, one constant per dictionary
  literal (named after its \<^verbatim>\<open>"id"\<close>), and the two lists in the order of the source.
\<close>

definition route_S12 :: route where
  "route_S12 = \<lparr>rid = ''S12'', rname = ''S12'', rfrom = ''Howrah Station'', rto = ''New Town'', via = ''Salt Lake'',
     fare_min = 10, fare_max = 35, frequency_min = 10\<rparr>"

definition route_AC1 :: route where
  "route_AC1 = \<lparr>rid = ''AC1'', rname = ''AC1'', rfrom = ''Jadavpur'', rto = ''Airport'', via = ''EM Bypass'',
     fare_min = 25, fare_max = 55, frequency_min = 15\<rparr>"

definition route_45A :: route where
  "route_45A = \<lparr>rid = ''45A'', rname = ''45A'', rfrom = ''Garia Station'', rto = ''Esplanade'', via = ''Rashbehari'',
     fare_min = 8, fare_max = 25, frequency_min = 8\<rparr>"

definition route_DN9 :: route where
  "route_DN9 = \<lparr>rid = ''DN9'', rname = ''DN9'', rfrom = ''Dunlop'', rto = ''Babughat'', via = ''Shyambazar'',
     fare_min = 10, fare_max = 30, frequency_min = 12\<rparr>"

definition route_S9 :: route where
  "route_S9 = \<lparr>rid = ''S9'', rname = ''S9'', rfrom = ''Howrah Station'', rto = ''Salt Lake Sector V'', via = ''Ultadanga'',
     fare_min = 10, fare_max = 30, frequency_min = 10\<rparr>"

definition route_AC2 :: route where
  "route_AC2 = \<lparr>rid = ''AC2'', rname = ''AC2'', rfrom = ''Garia'', rto = ''Karunamoyee'', via = ''Science City'',
     fare_min = 25, fare_max = 50, frequency_min = 20\<rparr>"

definition route_230 :: route where
  "route_230 = \<lparr>rid = ''230'', rname = ''230'', rfrom = ''Howrah Station'', rto = ''Joka'', via = ''Behala'',
     fare_min = 8, fare_max = 28, frequency_min = 10\<rparr>"

definition route_12B :: route where
  "route_12B = \<lparr>rid = ''12B'', rname = ''12B/1'', rfrom = ''Tollygunge'', rto = ''Howrah Station'', via = ''Kalighat'',
     fare_min = 8, fare_max = 22, frequency_min = 7\<rparr>"

definition route_201 :: route where
  "route_201 = \<lparr>rid = ''201'', rname = ''201'', rfrom = ''Barasat'', rto = ''Babughat'', via = ''Dum Dum'',
     fare_min = 12, fare_max = 35, frequency_min = 15\<rparr>"

definition route_AC9 :: route where
  "route_AC9 = \<lparr>rid = ''AC9'', rname = ''AC9'', rfrom = ''Airport'', rto = ''Esplanade'', via = ''VIP Road'',
     fare_min = 30, fare_max = 60, frequency_min = 20\<rparr>"

definition route_S32 :: route where
  "route_S32 = \<lparr>rid = ''S32'', rname = ''S32'', rfrom = ''Sealdah'', rto = ''Dankuni'', via = ''Shyambazar'',
     fare_min = 10, fare_max = 32, frequency_min = 12\<rparr>"

definition route_46A :: route where
  "route_46A = \<lparr>rid = ''46A'', rname = ''46A'', rfrom = ''Ruby Hospital'', rto = ''Howrah Station'', via = ''Park Circus'',
     fare_min = 8, fare_max = 25, frequency_min = 8\<rparr>"

definition route_S5 :: route where
  "route_S5 = \<lparr>rid = ''S5'', rname = ''S5'', rfrom = ''Barrackpore'', rto = ''Esplanade'', via = ''Baranagar'',
     fare_min = 12, fare_max = 30, frequency_min = 12\<rparr>"

definition route_DN20 :: route where
  "route_DN20 = \<lparr>rid = ''DN20'', rname = ''DN20'', rfrom = ''Dunlop'', rto = ''Garia'', via = ''EM Bypass'',
     fare_min = 12, fare_max = 35, frequency_min = 15\<rparr>"

definition route_AC47 :: route where
  "route_AC47 = \<lparr>rid = ''AC47'', rname = ''AC47'', rfrom = ''Howrah Station'', rto = ''Garia'', via = ''Moulali'',
     fare_min = 25, fare_max = 50, frequency_min = 15\<rparr>"

definition route_78 :: route where
  "route_78 = \<lparr>rid = ''78'', rname = ''78'', rfrom = ''Esplanade'', rto = ''Barasat'', via = ''Dum Dum'',
     fare_min = 10, fare_max = 30, frequency_min = 10\<rparr>"

definition route_S11 :: route where
  "route_S11 = \<lparr>rid = ''S11'', rname = ''S11'', rfrom = ''Howrah'', rto = ''Karunamoyee'', via = ''Sealdah'',
     fare_min = 10, fare_max = 28, frequency_min = 12\<rparr>"

definition route_215 :: route where
  "route_215 = \<lparr>rid = ''215'', rname = ''215'', rfrom = ''Sealdah'', rto = ''Airport'', via = ''VIP Road'',
     fare_min = 10, fare_max = 30, frequency_min = 15\<rparr>"

definition route_L230 :: route where
  "route_L230 = \<lparr>rid = ''L230'', rname = ''L230'', rfrom = ''Garia'', rto = ''Babughat'', via = ''Tollygunge'',
     fare_min = 8, fare_max = 25, frequency_min = 8\<rparr>"

definition route_AC3 :: route where
  "route_AC3 = \<lparr>rid = ''AC3'', rname = ''AC3'', rfrom = ''New Town'', rto = ''Esplanade'', via = ''Salt Lake'',
     fare_min = 30, fare_max = 55, frequency_min = 20\<rparr>"

definition route_S41 :: route where
  "route_S41 = \<lparr>rid = ''S41'', rname = ''S41'', rfrom = ''Baruipur'', rto = ''Howrah'', via = ''Garia'',
     fare_min = 12, fare_max = 35, frequency_min = 15\<rparr>"

definition route_E32 :: route where
  "route_E32 = \<lparr>rid = ''E32'', rname = ''E32'', rfrom = ''Barrackpore'', rto = ''Garia'', via = ''Ultadanga'',
     fare_min = 12, fare_max = 35, frequency_min = 12\<rparr>"

definition route_MM12 :: route where
  "route_MM12 = \<lparr>rid = ''MM12'', rname = ''MM12'', rfrom = ''Behala'', rto = ''BBD Bagh'', via = ''Diamond Harbour Rd'',
     fare_min = 8, fare_max = 22, frequency_min = 10\<rparr>"

definition route_AC20 :: route where
  "route_AC20 = \<lparr>rid = ''AC20'', rname = ''AC20'', rfrom = ''Howrah'', rto = ''Airport'', via = ''EM Bypass'',
     fare_min = 30, fare_max = 65, frequency_min = 25\<rparr>"

definition route_S6 :: route where
  "route_S6 = \<lparr>rid = ''S6'', rname = ''S6'', rfrom = ''Sealdah'', rto = ''Salt Lake'', via = ''CIT Road'',
     fare_min = 8, fare_max = 20, frequency_min = 8\<rparr>"

definition route_34 :: route where
  "route_34 = \<lparr>rid = ''34'', rname = ''34'', rfrom = ''Esplanade'', rto = ''Jadavpur'', via = ''Gariahat'',
     fare_min = 8, fare_max = 20, frequency_min = 7\<rparr>"

definition route_203 :: route where
  "route_203 = \<lparr>rid = ''203'', rname = ''203'', rfrom = ''Sealdah'', rto = ''Sonarpur'', via = ''Garia'',
     fare_min = 10, fare_max = 28, frequency_min = 12\<rparr>"

definition route_AC36 :: route where
  "route_AC36 = \<lparr>rid = ''AC36'', rname = ''AC36'', rfrom = ''Barasat'', rto = ''Tollygunge'', via = ''Jessore Road'',
     fare_min = 25, fare_max = 50, frequency_min = 20\<rparr>"

definition route_S15 :: route where
  "route_S15 = \<lparr>rid = ''S15'', rname = ''S15'', rfrom = ''Howrah'', rto = ''Nicco Park'', via = ''Salt Lake'',
     fare_min = 10, fare_max = 30, frequency_min = 12\<rparr>"

definition route_DN44 :: route where
  "route_DN44 = \<lparr>rid = ''DN44'', rname = ''DN44'', rfrom = ''Dunlop'', rto = ''Jadavpur'', via = ''Shyambazar'',
     fare_min = 10, fare_max = 28, frequency_min = 12\<rparr>"

definition BUS_ROUTES :: "route list" where
  "BUS_ROUTES =
    [route_S12, route_AC1, route_45A, route_DN9, route_S9, route_AC2, route_230, route_12B,
     route_201, route_AC9, route_S32, route_46A, route_S5, route_DN20, route_AC47, route_78,
     route_S11, route_215, route_L230, route_AC3, route_S41, route_E32, route_MM12,
     route_AC20, route_S6, route_34, route_203, route_AC36, route_S15, route_DN44]"

definition stop_hw :: stop where
  "stop_hw = \<lparr>sid = ''hw'', sname = ''Howrah Station'', lat = 22.5839, lng = 88.3430,
     routes = [''S12'', ''230'', ''12B'', ''S11'', ''AC20'', ''S15'', ''S41'', ''AC47'']\<rparr>"

definition stop_es :: stop where
  "stop_es = \<lparr>sid = ''es'', sname = ''Esplanade'', lat = 22.5554, lng = 88.3520,
     routes = [''45A'', ''AC9'', ''S5'', ''78'', ''AC3'', ''34'']\<rparr>"

definition stop_sd :: stop where
  "stop_sd = \<lparr>sid = ''sd'', sname = ''Sealdah Station'', lat = 22.5684, lng = 88.3733,
     routes = [''S32'', ''S6'', ''203'', ''215'']\<rparr>"

definition stop_nt :: stop where
  "stop_nt = \<lparr>sid = ''nt'', sname = ''New Town City Centre'', lat = 22.5941, lng = 88.4842,
     routes = [''S12'', ''AC3'']\<rparr>"

definition stop_sl5 :: stop where
  "stop_sl5 = \<lparr>sid = ''sl5'', sname = ''Salt Lake Sector V'', lat = 22.5726, lng = 88.4319,
     routes = [''S9'', ''S6'', ''S15'']\<rparr>"

definition stop_ga :: stop where
  "stop_ga = \<lparr>sid = ''ga'', sname = ''Garia Station'', lat = 22.4590, lng = 88.3852,
     routes = [''45A'', ''AC2'', ''DN20'', ''L230'', ''203'', ''S41'']\<rparr>"

definition stop_jp :: stop where
  "stop_jp = \<lparr>sid = ''jp'', sname = ''Jadavpur'', lat = 22.4987, lng = 88.3692,
     routes = [''AC1'', ''34'', ''DN44'']\<rparr>"

definition stop_ap :: stop where
  "stop_ap = \<lparr>sid = ''ap'', sname = ''Airport (NSCBI)'', lat = 22.6520, lng = 88.4463,
     routes = [''AC1'', ''AC9'', ''215'', ''AC20'']\<rparr>"

definition stop_dl :: stop where
  "stop_dl = \<lparr>sid = ''dl'', sname = ''Dunlop'', lat = 22.6460, lng = 88.3784,
     routes = [''DN9'', ''DN20'', ''DN44'']\<rparr>"

definition stop_bb :: stop where
  "stop_bb = \<lparr>sid = ''bb'', sname = ''Babughat'', lat = 22.5636, lng = 88.3400,
     routes = [''DN9'', ''201'', ''L230'']\<rparr>"

definition stop_br :: stop where
  "stop_br = \<lparr>sid = ''br'', sname = ''Barasat'', lat = 22.7235, lng = 88.4802,
     routes = [''201'', ''78'', ''AC36'']\<rparr>"

definition stop_tg :: stop where
  "stop_tg = \<lparr>sid = ''tg'', sname = ''Tollygunge'', lat = 22.4985, lng = 88.3470,
     routes = [''12B'', ''AC36'']\<rparr>"

definition stop_km :: stop where
  "stop_km = \<lparr>sid = ''km'', sname = ''Karunamoyee'', lat = 22.5772, lng = 88.4041,
     routes = [''AC2'', ''S11'']\<rparr>"

definition stop_rb :: stop where
  "stop_rb = \<lparr>sid = ''rb'', sname = ''Ruby Hospital'', lat = 22.5145, lng = 88.3988,
     routes = [''46A'', ''DN20'']\<rparr>"

definition stop_sh :: stop where
  "stop_sh = \<lparr>sid = ''sh'', sname = ''Shyambazar'', lat = 22.5956, lng = 88.3716,
     routes = [''DN9'', ''S32'', ''DN44'']\<rparr>"

definition stop_pc :: stop where
  "stop_pc = \<lparr>sid = ''pc'', sname = ''Park Circus'', lat = 22.5393, lng = 88.3695,
     routes = [''46A'']\<rparr>"

definition stop_sc :: stop where
  "stop_sc = \<lparr>sid = ''sc'', sname = ''Science City'', lat = 22.5403, lng = 88.3960,
     routes = [''AC2'']\<rparr>"

definition stop_bh :: stop where
  "stop_bh = \<lparr>sid = ''bh'', sname = ''Behala'', lat = 22.4889, lng = 88.3100,
     routes = [''230'', ''MM12'']\<rparr>"

definition stop_jk :: stop where
  "stop_jk = \<lparr>sid = ''jk'', sname = ''Joka'', lat = 22.4487, lng = 88.3095,
     routes = [''230'']\<rparr>"

definition stop_bp :: stop where
  "stop_bp = \<lparr>sid = ''bp'', sname = ''Barrackpore'', lat = 22.7584, lng = 88.3685,
     routes = [''S5'', ''E32'']\<rparr>"

definition stop_dd :: stop where
  "stop_dd = \<lparr>sid = ''dd'', sname = ''Dum Dum'', lat = 22.6224, lng = 88.4218,
     routes = [''201'', ''78'']\<rparr>"

definition stop_ul :: stop where
  "stop_ul = \<lparr>sid = ''ul'', sname = ''Ultadanga'', lat = 22.5813, lng = 88.3900,
     routes = [''S9'', ''E32'']\<rparr>"

definition stop_gh :: stop where
  "stop_gh = \<lparr>sid = ''gh'', sname = ''Gariahat'', lat = 22.5183, lng = 88.3667,
     routes = [''34'']\<rparr>"

definition stop_kg :: stop where
  "stop_kg = \<lparr>sid = ''kg'', sname = ''Kalighat'', lat = 22.5240, lng = 88.3440,
     routes = [''12B'']\<rparr>"

definition stop_ml :: stop where
  "stop_ml = \<lparr>sid = ''ml'', sname = ''Moulali'', lat = 22.5568, lng = 88.3590,
     routes = [''AC47'']\<rparr>"

definition stop_sl1 :: stop where
  "stop_sl1 = \<lparr>sid = ''sl1'', sname = ''Salt Lake Sector I'', lat = 22.5800, lng = 88.4100,
     routes = [''S12'', ''S6'', ''AC3'']\<rparr>"

definition stop_bbd :: stop where
  "stop_bbd = \<lparr>sid = ''bbd'', sname = ''BBD Bagh'', lat = 22.5728, lng = 88.3488,
     routes = [''MM12'']\<rparr>"

definition stop_dk :: stop where
  "stop_dk = \<lparr>sid = ''dk'', sname = ''Dankuni'', lat = 22.6784, lng = 88.2931,
     routes = [''S32'']\<rparr>"

definition stop_rh :: stop where
  "stop_rh = \<lparr>sid = ''rh'', sname = ''Rashbehari'', lat = 22.5175, lng = 88.3544,
     routes = [''45A'']\<rparr>"

definition stop_vip :: stop where
  "stop_vip = \<lparr>sid = ''vip'', sname = ''VIP Road'', lat = 22.6093, lng = 88.4260,
     routes = [''AC9'', ''215'']\<rparr>"

definition stop_by :: stop where
  "stop_by = \<lparr>sid = ''by'', sname = ''Baruipur'', lat = 22.3581, lng = 88.4305,
     routes = [''S41'']\<rparr>"

definition stop_dh :: stop where
  "stop_dh = \<lparr>sid = ''dh'', sname = ''Diamond Harbour Road'', lat = 22.4830, lng = 88.3200,
     routes = [''MM12'']\<rparr>"

definition stop_js :: stop where
  "stop_js = \<lparr>sid = ''js'', sname = ''Jessore Road'', lat = 22.6300, lng = 88.4000,
     routes = [''AC36'', ''78'']\<rparr>"

definition stop_np :: stop where
  "stop_np = \<lparr>sid = ''np'', sname = ''Nicco Park'', lat = 22.5756, lng = 88.4150,
     routes = [''S15'']\<rparr>"

definition stop_sr :: stop where
  "stop_sr = \<lparr>sid = ''sr'', sname = ''Sonarpur'', lat = 22.4350, lng = 88.4150,
     routes = [''203'']\<rparr>"

definition stop_ct :: stop where
  "stop_ct = \<lparr>sid = ''ct'', sname = ''CIT Road'', lat = 22.5650, lng = 88.3850,
     routes = [''S6'']\<rparr>"

definition stop_bn :: stop where
  "stop_bn = \<lparr>sid = ''bn'', sname = ''Baranagar'', lat = 22.6388, lng = 88.3788,
     routes = [''S5'']\<rparr>"

definition stop_eb :: stop where
  "stop_eb = \<lparr>sid = ''eb'', sname = ''EM Bypass Connector'', lat = 22.5316, lng = 88.3978,
     routes = [''AC1'', ''DN20'', ''AC20'']\<rparr>"

definition stop_ht :: stop where
  "stop_ht = \<lparr>sid = ''ht'', sname = ''Hatibagan'', lat = 22.5880, lng = 88.3630,
     routes = [''DN9'']\<rparr>"

definition stop_np2 :: stop where
  "stop_np2 = \<lparr>sid = ''np2'', sname = ''New Alipore'', lat = 22.5070, lng = 88.3330,
     routes = [''230'']\<rparr>"

definition stop_pb :: stop where
  "stop_pb = \<lparr>sid = ''pb'', sname = ''Prince Anwar Shah Road'', lat = 22.5050, lng = 88.3780,
     routes = [''AC2'', ''DN20'']\<rparr>"

definition stop_lk :: stop where
  "stop_lk = \<lparr>sid = ''lk'', sname = ''Lake Town'', lat = 22.5942, lng = 88.3920,
     routes = [''E32'', ''215'']\<rparr>"

definition stop_cg :: stop where
  "stop_cg = \<lparr>sid = ''cg'', sname = ''College Street'', lat = 22.5730, lng = 88.3630,
     routes = [''DN9'', ''S32'']\<rparr>"

definition stop_wr :: stop where
  "stop_wr = \<lparr>sid = ''wr'', sname = ''Wireless Crossing'', lat = 22.5260, lng = 88.3910,
     routes = [''46A'', ''AC2'']\<rparr>"

definition stop_nb :: stop where
  "stop_nb = \<lparr>sid = ''nb'', sname = ''Nabanna'', lat = 22.5588, lng = 88.3168,
     routes = [''230'']\<rparr>"

definition stop_sg :: stop where
  "stop_sg = \<lparr>sid = ''sg'', sname = ''Salt Lake Gate'', lat = 22.5760, lng = 88.4050,
     routes = [''S12'', ''S9'', ''S6'', ''S15'']\<rparr>"

definition stop_sb :: stop where
  "stop_sb = \<lparr>sid = ''sb'', sname = ''Santoshpur'', lat = 22.4770, lng = 88.3930,
     routes = [''203'', ''E32'']\<rparr>"

definition stop_kr :: stop where
  "stop_kr = \<lparr>sid = ''kr'', sname = ''Kona Expressway'', lat = 22.5760, lng = 88.3100,
     routes = [''AC20'']\<rparr>"

definition stop_tb :: stop where
  "stop_tb = \<lparr>sid = ''tb'', sname = ''Taratala'', lat = 22.5050, lng = 88.3180,
     routes = [''230'', ''MM12'']\<rparr>"

definition stop_gl :: stop where
  "stop_gl = \<lparr>sid = ''gl'', sname = ''Golf Green'', lat = 22.4970, lng = 88.3920,
     routes = [''DN20'', ''AC2'']\<rparr>"

definition stop_blr :: stop where
  "stop_blr = \<lparr>sid = ''blr'', sname = ''Belur Math'', lat = 22.6308, lng = 88.3527,
     routes = [''S5'', ''S15'']\<rparr>"

definition stop_dks :: stop where
  "stop_dks = \<lparr>sid = ''dks'', sname = ''Dakshineswar'', lat = 22.6548, lng = 88.3576,
     routes = [''DN9'', ''S5'']\<rparr>"

definition stop_svb :: stop where
  "stop_svb = \<lparr>sid = ''svb'', sname = ''Sovabazar'', lat = 22.5881, lng = 88.3598,
     routes = [''DN9'', ''S32'']\<rparr>"

definition stop_bhw :: stop where
  "stop_bhw = \<lparr>sid = ''bhw'', sname = ''Bhawanipur'', lat = 22.5267, lng = 88.3450,
     routes = [''12B'', ''34'']\<rparr>"

definition stop_hz :: stop where
  "stop_hz = \<lparr>sid = ''hz'', sname = ''Hazra'', lat = 22.5237, lng = 88.3510,
     routes = [''45A'', ''34'']\<rparr>"

definition stop_ld :: stop where
  "stop_ld = \<lparr>sid = ''ld'', sname = ''Lansdowne'', lat = 22.5150, lng = 88.3480,
     routes = [''12B'', ''AC36'']\<rparr>"

definition stop_blg :: stop where
  "stop_blg = \<lparr>sid = ''blg'', sname = ''Ballygunge'', lat = 22.5268, lng = 88.3640,
     routes = [''34'', ''AC1'']\<rparr>"

definition stop_ksb :: stop where
  "stop_ksb = \<lparr>sid = ''ksb'', sname = ''Kasba'', lat = 22.5100, lng = 88.3870,
     routes = [''AC2'', ''203'']\<rparr>"

definition stop_rp :: stop where
  "stop_rp = \<lparr>sid = ''rp'', sname = ''Regent Park'', lat = 22.5190, lng = 88.3850,
     routes = [''46A'', ''AC2'']\<rparr>"

definition stop_mk :: stop where
  "stop_mk = \<lparr>sid = ''mk'', sname = ''Maniktala'', lat = 22.5870, lng = 88.3800,
     routes = [''E32'', ''DN44'']\<rparr>"

definition stop_blc :: stop where
  "stop_blc = \<lparr>sid = ''blc'', sname = ''Belgachia'', lat = 22.6020, lng = 88.3700,
     routes = [''DN9'', ''201'']\<rparr>"

definition stop_csp :: stop where
  "stop_csp = \<lparr>sid = ''csp'', sname = ''Cossipore'', lat = 22.6100, lng = 88.3680,
     routes = [''S5'', ''DN44'']\<rparr>"

definition stop_sdp :: stop where
  "stop_sdp = \<lparr>sid = ''sdp'', sname = ''Sodepur'', lat = 22.6950, lng = 88.3920,
     routes = [''S5'', ''201'']\<rparr>"

definition stop_nht :: stop where
  "stop_nht = \<lparr>sid = ''nht'', sname = ''Naihati'', lat = 22.8930, lng = 88.4220,
     routes = [''E32'']\<rparr>"

definition stop_chn :: stop where
  "stop_chn = \<lparr>sid = ''chn'', sname = ''Chandannagar'', lat = 22.8672, lng = 88.3630,
     routes = [''S32'']\<rparr>"

definition stop_bly :: stop where
  "stop_bly = \<lparr>sid = ''bly'', sname = ''Bally'', lat = 22.6500, lng = 88.3400,
     routes = [''12B'', ''S15'']\<rparr>"

definition stop_llh :: stop where
  "stop_llh = \<lparr>sid = ''llh'', sname = ''Liluah'', lat = 22.6250, lng = 88.3340,
     routes = [''AC20'', ''S11'']\<rparr>"

definition stop_belg :: stop where
  "stop_belg = \<lparr>sid = ''belg'', sname = ''Belgharia'', lat = 22.6650, lng = 88.3880,
     routes = [''201'', ''78'']\<rparr>"

definition stop_mdg :: stop where
  "stop_mdg = \<lparr>sid = ''mdg'', sname = ''Madhyamgram'', lat = 22.6800, lng = 88.4500,
     routes = [''78'', ''AC36'']\<rparr>"

definition stop_rjh :: stop where
  "stop_rjh = \<lparr>sid = ''rjh'', sname = ''Rajarhat'', lat = 22.5990, lng = 88.4750,
     routes = [''AC3'', ''S12'']\<rparr>"

definition stop_cnp :: stop where
  "stop_cnp = \<lparr>sid = ''cnp'', sname = ''Chinar Park'', lat = 22.6020, lng = 88.4550,
     routes = [''AC3'', ''S9'']\<rparr>"

definition stop_bgti :: stop where
  "stop_bgti = \<lparr>sid = ''bgti'', sname = ''Baguiati'', lat = 22.6120, lng = 88.4200,
     routes = [''215'', ''AC9'']\<rparr>"

definition stop_plb :: stop where
  "stop_plb = \<lparr>sid = ''plb'', sname = ''Phoolbagan'', lat = 22.5720, lng = 88.3850,
     routes = [''S6'', ''AC47'']\<rparr>"

definition stop_ent :: stop where
  "stop_ent = \<lparr>sid = ''ent'', sname = ''Entally'', lat = 22.5630, lng = 88.3700,
     routes = [''AC47'', ''46A'']\<rparr>"

definition stop_bwb :: stop where
  "stop_bwb = \<lparr>sid = ''bwb'', sname = ''Bow Barracks'', lat = 22.5580, lng = 88.3610,
     routes = [''45A'', ''AC47'']\<rparr>"

definition stop_dmt :: stop where
  "stop_dmt = \<lparr>sid = ''dmt'', sname = ''Dharmatala'', lat = 22.5550, lng = 88.3530,
     routes = [''45A'', ''78'', ''AC9'']\<rparr>"

definition stop_mdn :: stop where
  "stop_mdn = \<lparr>sid = ''mdn'', sname = ''Maidan'', lat = 22.5500, lng = 88.3455,
     routes = [''34'', ''230'', ''12B'']\<rparr>"

definition stop_ndn :: stop where
  "stop_ndn = \<lparr>sid = ''ndn'', sname = ''Nandan'', lat = 22.5280, lng = 88.3500,
     routes = [''34'', ''AC36'']\<rparr>"

definition stop_exc :: stop where
  "stop_exc = \<lparr>sid = ''exc'', sname = ''Exide Crossing'', lat = 22.5320, lng = 88.3530,
     routes = [''45A'', ''AC1'']\<rparr>"

definition stop_rbs :: stop where
  "stop_rbs = \<lparr>sid = ''rbs'', sname = ''Rabindra Sadan'', lat = 22.5310, lng = 88.3470,
     routes = [''12B'', ''34'', ''AC36'']\<rparr>"

definition BUS_STOPS :: "stop list" where
  "BUS_STOPS =
    [stop_hw, stop_es, stop_sd, stop_nt, stop_sl5, stop_ga, stop_jp, stop_ap, stop_dl,
     stop_bb, stop_br, stop_tg, stop_km, stop_rb, stop_sh, stop_pc, stop_sc, stop_bh, stop_jk,
     stop_bp, stop_dd, stop_ul, stop_gh, stop_kg, stop_ml, stop_sl1, stop_bbd, stop_dk,
     stop_rh, stop_vip, stop_by, stop_dh, stop_js, stop_np, stop_sr, stop_ct, stop_bn,
     stop_eb, stop_ht, stop_np2, stop_pb, stop_lk, stop_cg, stop_wr, stop_nb, stop_sg,
     stop_sb, stop_kr, stop_tb, stop_gl, stop_blr, stop_dks, stop_svb, stop_bhw, stop_hz,
     stop_ld, stop_blg, stop_ksb, stop_rp, stop_mk, stop_blc, stop_csp, stop_sdp, stop_nht,
     stop_chn, stop_bly, stop_llh, stop_belg, stop_mdg, stop_rjh, stop_cnp, stop_bgti,
     stop_plb, stop_ent, stop_bwb, stop_dmt, stop_mdn, stop_ndn, stop_exc, stop_rbs]"

definition match_aliases :: "(string \<times> string) list" where
  "match_aliases = [
    (''howrah'', ''howrah station''), (''sealdah'', ''sealdah station''),
    (''newtown'', ''new town city centre''), (''new town'', ''new town city centre''),
    (''airport'', ''airport (nscbi)''), (''garia'', ''garia station''),
    (''salt lake'', ''salt lake sector v''), (''sector v'', ''salt lake sector v''),
    (''sector 5'', ''salt lake sector v''), (''sector i'', ''salt lake sector i''),
    (''sector 1'', ''salt lake sector i''), (''dum dum'', ''dum dum''),
    (''tollygunge'', ''tollygunge''), (''tolly'', ''tollygunge''),
    (''karunamoyee'', ''karunamoyee''), (''ruby'', ''ruby hospital''),
    (''esplanade'', ''esplanade''), (''jadavpur'', ''jadavpur''),
    (''barasat'', ''barasat''), (''behala'', ''behala''),
    (''joka'', ''joka''), (''bbdbagh'', ''bbd bagh''),
    (''bbd bagh'', ''bbd bagh''), (''gariahat'', ''gariahat''),
    (''park circus'', ''park circus''), (''science city'', ''science city''),
    (''dunlop'', ''dunlop''), (''nicco park'', ''nicco park''),
    (''babughat'', ''babughat''), (''shyambazar'', ''shyambazar''),
    (''barrackpore'', ''barrackpore''), (''belur'', ''belur math''),
    (''belur math'', ''belur math''), (''dakshineswar'', ''dakshineswar''),
    (''sovabazar'', ''sovabazar''), (''bhawanipur'', ''bhawanipur''),
    (''hazra'', ''hazra''), (''lansdowne'', ''lansdowne''),
    (''ballygunge'', ''ballygunge''), (''kasba'', ''kasba''),
    (''regent park'', ''regent park''), (''maniktala'', ''maniktala''),
    (''belgachia'', ''belgachia''), (''cossipore'', ''cossipore''),
    (''sodepur'', ''sodepur''), (''naihati'', ''naihati''),
    (''chandannagar'', ''chandannagar''), (''bally'', ''bally''),
    (''liluah'', ''liluah''), (''belgharia'', ''belgharia''),
    (''madhyamgram'', ''madhyamgram''), (''rajarhat'', ''rajarhat''),
    (''chinar park'', ''chinar park''), (''baguiati'', ''baguiati''),
    (''phoolbagan'', ''phoolbagan''), (''entally'', ''entally''),
    (''dharmatala'', ''dharmatala''), (''maidan'', ''maidan''),
    (''nandan'', ''nandan''), (''exide'', ''exide crossing''),
    (''rabindra sadan'', ''rabindra sadan'')]"

definition eta_aliases :: "(string \<times> string) list" where
  "eta_aliases = [
    (''howrah'', ''howrah station''), (''sealdah'', ''sealdah station''),
    (''airport'', ''airport (nscbi)''), (''newtown'', ''new town city centre''),
    (''new town'', ''new town city centre''), (''salt lake'', ''salt lake sector v''),
    (''sector v'', ''salt lake sector v''), (''garia'', ''garia station''),
    (''behala'', ''behala''), (''joka'', ''joka''),
    (''esplanade'', ''esplanade''), (''jadavpur'', ''jadavpur''),
    (''dunlop'', ''dunlop''), (''tollygunge'', ''tollygunge''),
    (''barasat'', ''barasat''), (''bbd bagh'', ''bbd bagh''),
    (''bbdbagh'', ''bbd bagh''), (''karunamoyee'', ''karunamoyee''),
    (''science city'', ''science city''), (''ruby'', ''ruby hospital''),
    (''park circus'', ''park circus''), (''gariahat'', ''gariahat''),
    (''shyambazar'', ''shyambazar''), (''nicco park'', ''nicco park''),
    (''babughat'', ''babughat''), (''barrackpore'', ''barrackpore''),
    (''ultadanga'', ''ultadanga''), (''dum dum'', ''dum dum''),
    (''moulali'', ''moulali''), (''belur'', ''belur math''),
    (''belur math'', ''belur math''), (''dakshineswar'', ''dakshineswar''),
    (''sovabazar'', ''sovabazar''), (''bhawanipur'', ''bhawanipur''),
    (''hazra'', ''hazra''), (''lansdowne'', ''lansdowne''),
    (''ballygunge'', ''ballygunge''), (''kasba'', ''kasba''),
    (''regent park'', ''regent park''), (''maniktala'', ''maniktala''),
    (''belgachia'', ''belgachia''), (''cossipore'', ''cossipore''),
    (''sodepur'', ''sodepur''), (''naihati'', ''naihati''),
    (''chandannagar'', ''chandannagar''), (''bally'', ''bally''),
    (''liluah'', ''liluah''), (''belgharia'', ''belgharia''),
    (''madhyamgram'', ''madhyamgram''), (''rajarhat'', ''rajarhat''),
    (''chinar park'', ''chinar park''), (''baguiati'', ''baguiati''),
    (''phoolbagan'', ''phoolbagan''), (''entally'', ''entally''),
    (''dharmatala'', ''dharmatala''), (''maidan'', ''maidan''),
    (''nandan'', ''nandan''), (''exide'', ''exide crossing''),
    (''rabindra sadan'', ''rabindra sadan'')]"

text \<open>\<^verbatim>\<open>next((r for r in BUS_ROUTES if r["id"] == rid), None)\<close>\<close>

definition route_by_id :: "string \<Rightarrow> route option" where
  "route_by_id r = find (\<lambda>x. rid x = r) BUS_ROUTES"

section \<open>Stop resolution: \<^verbatim>\<open>_match_stop\<close>\<close>

definition alias_lookup :: "string \<Rightarrow> stop option" where
  "alias_lookup q =
     (case map_of match_aliases q of
        None \<Rightarrow> None
      | Some alias_name \<Rightarrow> find (\<lambda>s. lower (sname s) = alias_name) BUS_STOPS)"

definition match_stop :: "string \<Rightarrow> stop option" where
  "match_stop query =
     (let q = strip (lower query) in
      case find (\<lambda>s. lower (sname s) = q \<or> sid s = q) BUS_STOPS of
        Some s \<Rightarrow> Some s
      | None \<Rightarrow>
         (case alias_lookup q of
            Some s \<Rightarrow> Some s
          | None \<Rightarrow>
             (let matches = filter (\<lambda>s. sublist q (lower (sname s))) BUS_STOPS in
              if length matches = 1 then Some (hd matches)
              else if matches \<noteq> [] then Some (hd (sort_key (\<lambda>s. length (sname s)) matches))
              else find (\<lambda>s. list_ex (prefix q) (split_ws (lower (sname s)))) BUS_STOPS)))"

section \<open>Fleet state: the \<^verbatim>\<open>live_buses\<close> table and its telemetry operations\<close>

text \<open>
  A row of \<^verbatim>\<open>LiveBusDB\<close>.  The table is the list of its rows in insertion order;
  \<open>bus_reg\<close> is the primary key.  Timestamps are values of the injected clock
  (\<^verbatim>\<open>datetime.utcnow()\<close>), passed to each operation as \<open>now\<close>.
\<close>

record live_bus =
  bus_reg :: string
  driver_id :: string
  driver_name :: string
  route_id :: string
  latitude :: real
  longitude :: real
  speed :: real
  passenger_count :: int
  crowd_level :: string
  status :: string
  delay_reason :: string
  trip_started_at :: nat
  last_update :: nat

type_synonym fleet = "live_bus list"

datatype error = NotFound string

text \<open>\<^verbatim>\<open>db.query(LiveBusDB).filter(LiveBusDB.bus_reg == reg).first()\<close>\<close>

definition query_first :: "string \<Rightarrow> fleet \<Rightarrow> live_bus option" where
  "query_first reg db = find (\<lambda>b. bus_reg b = reg) db"

text \<open>Attribute assignments on the fetched row followed by \<^verbatim>\<open>db.commit()\<close>.\<close>

definition commit_row :: "string \<Rightarrow> (live_bus \<Rightarrow> live_bus) \<Rightarrow> fleet \<Rightarrow> fleet" where
  "commit_row reg f db = map (\<lambda>b. if bus_reg b = reg then f b else b) db"

text \<open>
  \<^verbatim>\<open>LiveBusDB(bus_reg=..., ...)\<close> followed by \<^verbatim>\<open>db.add\<close>: the columns that the
  constructor call leaves out take the column defaults of the table declaration.
\<close>

definition new_bus :: "string \<Rightarrow> nat \<Rightarrow> live_bus" where
  "new_bus reg now =
     \<lparr>bus_reg = reg, driver_id = '''', driver_name = '''', route_id = '''',
      latitude = 0, longitude = 0, speed = 0, passenger_count = 0,
      crowd_level = ''Low'', status = ''running'', delay_reason = '''',
      trip_started_at = now, last_update = now\<rparr>"

record location_update =
  lu_bus_reg :: string
  lu_latitude :: real
  lu_longitude :: real
  lu_speed :: real
  lu_route_id :: string

definition update_bus_location ::
    "location_update \<Rightarrow> nat \<Rightarrow> fleet \<Rightarrow> fleet \<times> string \<times> string" where
  "update_bus_location req now db =
     (case query_first (lu_bus_reg req) db of
        Some bus \<Rightarrow>
          (commit_row (lu_bus_reg req)
             (\<lambda>b. b\<lparr>latitude := lu_latitude req, longitude := lu_longitude req,
                     speed := lu_speed req,
                     route_id := (if lu_route_id req \<noteq> '''' then lu_route_id req else route_id b),
                     last_update := now\<rparr>) db,
           ''ok'', lu_bus_reg req)
      | None \<Rightarrow>
          (db @ [(new_bus (lu_bus_reg req) now)
                   \<lparr>latitude := lu_latitude req, longitude := lu_longitude req,
                    speed := lu_speed req, route_id := lu_route_id req\<rparr>],
           ''ok'', lu_bus_reg req))"

text \<open>The response of \<^verbatim>\<open>update_passengers\<close>: status, crowd level, passenger count.\<close>

definition update_passengers ::
    "string \<Rightarrow> int \<Rightarrow> nat \<Rightarrow> fleet \<Rightarrow> error + fleet \<times> string \<times> string \<times> int" where
  "update_passengers reg count now db =
     (case query_first reg db of
        None \<Rightarrow> Inl (NotFound ''Bus not found'')
      | Some bus \<Rightarrow>
          (let level = (if count \<le> 20 then ''Low''
                        else if count \<le> 40 then ''Medium''
                        else ''High'')
           in Inr (commit_row reg
                     (\<lambda>b. b\<lparr>passenger_count := count, crowd_level := level,
                             last_update := now\<rparr>) db,
                   ''ok'', level, count)))"

definition update_bus_status ::
    "string \<Rightarrow> string \<Rightarrow> string \<Rightarrow> nat \<Rightarrow> fleet \<Rightarrow> error + fleet \<times> string \<times> string" where
  "update_bus_status reg st reason now db =
     (case query_first reg db of
        None \<Rightarrow> Inl (NotFound ''Bus not found'')
      | Some bus \<Rightarrow>
          Inr (commit_row reg
                 (\<lambda>b. b\<lparr>status := st, delay_reason := reason, last_update := now\<rparr>) db,
               ''ok'', st))"

definition start_trip :: "string \<Rightarrow> string \<Rightarrow> nat \<Rightarrow> fleet \<Rightarrow> fleet \<times> string \<times> string" where
  "start_trip reg r now db =
     (case query_first reg db of
        Some existing \<Rightarrow>
          (commit_row reg
             (\<lambda>b. b\<lparr>status := ''running'', route_id := r, passenger_count := 0,
                     crowd_level := ''Low'', delay_reason := '''',
                     trip_started_at := now, last_update := now\<rparr>) db,
           ''trip_started'', reg)
      | None \<Rightarrow>
          (db @ [(new_bus reg now)\<lparr>route_id := r\<rparr>], ''trip_started'', reg))"

text \<open>\<^verbatim>\<open>db.delete(bus)\<close> deletes the row with the primary key of \<open>bus\<close>.\<close>

definition end_trip :: "string \<Rightarrow> fleet \<Rightarrow> fleet \<times> string \<times> string" where
  "end_trip reg db =
     (case query_first reg db of
        Some bus \<Rightarrow> (filter (\<lambda>b. bus_reg b \<noteq> reg) db, ''trip_ended'', reg)
      | None \<Rightarrow> (db, ''trip_ended'', reg))"

text \<open>
  The crowd rule in the words of the specification, and the invariant that every stored
  row obeys it.
\<close>

definition crowd_rule :: "int \<Rightarrow> string" where
  "crowd_rule n = (if n \<le> 20 then ''Low'' else if 21 \<le> n \<and> n \<le> 40 then ''Medium'' else ''High'')"

definition crowd_consistent :: "fleet \<Rightarrow> bool" where
  "crowd_consistent db = list_all (\<lambda>b. crowd_level b = crowd_rule (passenger_count b)) db"


section \<open>Connections between two stops: \<^verbatim>\<open>find_route_between\<close>\<close>

text \<open>
  \<^verbatim>\<open>set(a) & set(b)\<close>: the route ids that occur in both lists, each once.  Python leaves the
  iteration order of a set unspecified; the parameter \<open>ord\<close> stands for that order (it
  rearranges the list of common ids), so every statement below holds for whatever order
  the interpreter picks.
\<close>

definition common_routes ::
    "(string list \<Rightarrow> string list) \<Rightarrow> string list \<Rightarrow> string list \<Rightarrow> string list" where
  "common_routes ord xs ys = ord (remdups (filter (\<lambda>r. r \<in> set ys) xs))"

text \<open>\<^verbatim>\<open>int(x)\<close> on a float: truncation towards zero.\<close>

definition py_int :: "real \<Rightarrow> int" where
  "py_int x = (if 0 \<le> x then \<lfloor>x\<rfloor> else \<lceil>x\<rceil>)"

text \<open>\<^verbatim>\<open>math.sqrt((a["lat"]-b["lat"])**2 + (a["lng"]-b["lng"])**2) * 111\<close>\<close>

definition flat_km :: "stop \<Rightarrow> stop \<Rightarrow> real" where
  "flat_km a b = sqrt ((lat a - lat b)\<^sup>2 + (lng a - lng b)\<^sup>2) * 111"

text \<open>
  An entry of the result list.  A direct entry has \<open>leg2_route\<close> and \<open>transfer_stop\<close>
  absent and its route in \<open>leg1_route\<close>; a transfer entry has both legs.
\<close>

record connection =
  ctype :: string
  leg1_route :: route
  leg2_route :: "route option"
  from_stop :: string
  transfer_stop :: "string option"
  to_stop :: string
  estimated_time_min :: int
  estimated_fare :: int
  transfers :: nat

definition direct_result :: "stop \<Rightarrow> stop \<Rightarrow> route \<Rightarrow> connection" where
  "direct_result from_s to_s r =
     (let dist = flat_km from_s to_s;
          est_time = max 5 (py_int (dist * 3.5))
      in \<lparr>ctype = ''direct'', leg1_route = r, leg2_route = None,
          from_stop = sname from_s, transfer_stop = None, to_stop = sname to_s,
          estimated_time_min = est_time, estimated_fare = fare_min r, transfers = 0\<rparr>)"

text \<open>The loop over \<^verbatim>\<open>direct_routes\<close>; ids without an entry in the route table are skipped.\<close>

definition direct_results ::
    "(string list \<Rightarrow> string list) \<Rightarrow> stop \<Rightarrow> stop \<Rightarrow> connection list" where
  "direct_results ord from_s to_s =
     concat (map (\<lambda>r. case route_by_id r of
                         None \<Rightarrow> []
                       | Some route \<Rightarrow> [direct_result from_s to_s route])
                 (common_routes ord (routes from_s) (routes to_s)))"

definition transfer_result :: "stop \<Rightarrow> stop \<Rightarrow> stop \<Rightarrow> route \<Rightarrow> route \<Rightarrow> connection" where
  "transfer_result from_s mid_stop to_s r1 r2 =
     (let d1 = flat_km from_s mid_stop;
          d2 = flat_km mid_stop to_s;
          est_time = max 10 (py_int ((d1 + d2) * 3.5) + 5)
      in \<lparr>ctype = ''transfer'', leg1_route = r1, leg2_route = Some r2,
          from_stop = sname from_s, transfer_stop = Some (sname mid_stop),
          to_stop = sname to_s, estimated_time_min = est_time,
          estimated_fare = fare_min r1 + fare_min r2, transfers = 1\<rparr>)"

text \<open>
  The loop over \<^verbatim>\<open>BUS_STOPS\<close> that collects transfer results; \<open>seen\<close> holds the keys
  \<^verbatim>\<open>f"{r1['id']}-{mid_stop['id']}-{r2['id']}"\<close> already emitted.
\<close>

fun transfer_scan ::
    "(string list \<Rightarrow> string list) \<Rightarrow> stop \<Rightarrow> stop \<Rightarrow> stop list \<Rightarrow> string list
     \<Rightarrow> connection list" where
  "transfer_scan ord from_s to_s [] seen = []"
| "transfer_scan ord from_s to_s (mid_stop # rest) seen =
     (if sid mid_stop = sid from_s \<or> sid mid_stop = sid to_s
      then transfer_scan ord from_s to_s rest seen
      else
        (let from_common = common_routes ord (routes from_s) (routes mid_stop);
             to_common = common_routes ord (routes mid_stop) (routes to_s)
         in if from_common \<noteq> [] \<and> to_common \<noteq> []
            then (case route_by_id (hd from_common) of
                    None \<Rightarrow> transfer_scan ord from_s to_s rest seen
                  | Some r1 \<Rightarrow>
                     (case route_by_id (hd to_common) of
                        None \<Rightarrow> transfer_scan ord from_s to_s rest seen
                      | Some r2 \<Rightarrow>
                         (let key = rid r1 @ ''-'' @ sid mid_stop @ ''-'' @ rid r2
                          in if key \<in> set seen
                             then transfer_scan ord from_s to_s rest seen
                             else transfer_result from_s mid_stop to_s r1 r2
                                  # transfer_scan ord from_s to_s rest (key # seen))))
            else transfer_scan ord from_s to_s rest seen))"

text \<open>The part of \<^verbatim>\<open>find_route_between\<close> after both stops are resolved.\<close>

definition find_connections ::
    "(string list \<Rightarrow> string list) \<Rightarrow> stop \<Rightarrow> stop \<Rightarrow> connection list" where
  "find_connections ord from_s to_s =
     (let results = direct_results ord from_s to_s;
          results = (if results = []
                     then take 5 (sort_key estimated_time_min
                                    (transfer_scan ord from_s to_s BUS_STOPS []))
                     else results)
      in take 5 (sort_key (\<lambda>x. (transfers x, estimated_time_min x)) results))"

record route_response =
  results :: "connection list"
  resp_from :: string
  resp_to :: string
  from_coords :: "real \<times> real"
  to_coords :: "real \<times> real"

fun join_comma :: "string list \<Rightarrow> string" where
  "join_comma [] = ''''"
| "join_comma [x] = x"
| "join_comma (x # y # ys) = x @ '', '' @ join_comma (y # ys)"

definition find_route_between ::
    "(string list \<Rightarrow> string list) \<Rightarrow> string \<Rightarrow> string \<Rightarrow> error + route_response" where
  "find_route_between ord from_q to_q =
     (case (match_stop from_q, match_stop to_q) of
        (Some from_s, Some to_s) \<Rightarrow>
          Inr \<lparr>results = find_connections ord from_s to_s,
               resp_from = sname from_s, resp_to = sname to_s,
               from_coords = (lat from_s, lng from_s),
               to_coords = (lat to_s, lng to_s)\<rparr>
      | (from_r, to_r) \<Rightarrow>
          Inl (NotFound (''Stop(s) not found: ''
                 @ join_comma ((if from_r = None then [from_q] else [])
                               @ (if to_r = None then [to_q] else []))
                 @ ''. Try using full stop names like '' @ [CHR 0x27] @ ''Howrah Station''
                 @ [CHR 0x27] @ '', '' @ [CHR 0x27] @ ''New Town'' @ [CHR 0x27] @ '', ''
                 @ [CHR 0x27] @ ''Esplanade'' @ [CHR 0x27] @ '', etc.'')))"

section \<open>Nearest stops: \<^verbatim>\<open>get_nearest_stops\<close>\<close>

text \<open>
  Floating-point numbers are modelled by the real numbers.  \<open>atan2\<close> is \<^verbatim>\<open>math.atan2\<close>,
  \<open>py_round\<close> is \<^verbatim>\<open>round(x)\<close> (to the nearest integer, ties to the even one) and
  \<open>round_nd n x\<close> is \<^verbatim>\<open>round(x, n)\<close>.
\<close>

definition radians :: "real \<Rightarrow> real" where
  "radians x = x * pi / 180"

definition atan2 :: "real \<Rightarrow> real \<Rightarrow> real" where
  "atan2 y x =
     (if 0 < x then arctan (y / x)
      else if x < 0 then (if 0 \<le> y then arctan (y / x) + pi else arctan (y / x) - pi)
      else if 0 < y then pi / 2
      else if y < 0 then - (pi / 2)
      else 0)"

definition haversine :: "real \<Rightarrow> real \<Rightarrow> real \<Rightarrow> real \<Rightarrow> real" where
  "haversine lat1 lon1 lat2 lon2 =
     (let R = 6371;
          dlat = radians (lat2 - lat1);
          dlon = radians (lon2 - lon1);
          a = (sin (dlat / 2))\<^sup>2 + cos (radians lat1) * cos (radians lat2) * (sin (dlon / 2))\<^sup>2
      in R * 2 * atan2 (sqrt a) (sqrt (1 - a)))"

definition py_round :: "real \<Rightarrow> int" where
  "py_round x =
     (let f = \<lfloor>x\<rfloor>; d = x - of_int f
      in if d < 1 / 2 then f
         else if 1 / 2 < d then f + 1
         else if even f then f else f + 1)"

definition round_nd :: "nat \<Rightarrow> real \<Rightarrow> real" where
  "round_nd n x = of_int (py_round (x * 10 ^ n)) / 10 ^ n"

text \<open>\<^verbatim>\<open>xs[:limit]\<close>; a negative limit counts from the end.\<close>

definition py_take :: "int \<Rightarrow> 'a list \<Rightarrow> 'a list" where
  "py_take limit xs =
     (if 0 \<le> limit then take (nat limit) xs else take (nat (int (length xs) + limit)) xs)"

record near_stop =
  ns_stop :: stop
  distance_km :: real
  distance_m :: int

definition stops_with_dist :: "real \<Rightarrow> real \<Rightarrow> near_stop list" where
  "stops_with_dist ulat ulng =
     map (\<lambda>s. let dist = haversine ulat ulng (lat s) (lng s)
               in \<lparr>ns_stop = s, distance_km = round_nd 2 dist,
                   distance_m = py_round (dist * 1000)\<rparr>) BUS_STOPS"

definition get_nearest_stops :: "real \<Rightarrow> real \<Rightarrow> int \<Rightarrow> near_stop list \<times> real \<times> real" where
  "get_nearest_stops ulat ulng limit =
     (py_take limit (sort_key distance_km (stops_with_dist ulat ulng)), ulat, ulng)"


section \<open>Destination resolution inside \<^verbatim>\<open>smart_eta\<close>\<close>

text \<open>
  Step 2 of \<^verbatim>\<open>smart_eta\<close>: the destination text is stripped and lower-cased, looked up in
  the alias table of \<^verbatim>\<open>smart_eta\<close>, and matched against the catalog in one pass; a second
  pass looks for a stop whose name contains one of the words of the text.
\<close>

definition smart_eta_dest :: "string \<Rightarrow> stop option" where
  "smart_eta_dest destination =
     (let dest_lower = lower (strip destination);
          resolved = (case map_of eta_aliases dest_lower of
                        Some v \<Rightarrow> v | None \<Rightarrow> dest_lower)
      in case find (\<lambda>s. resolved = lower (sname s)
                        \<or> sublist dest_lower (lower (sname s))
                        \<or> prefix dest_lower (lower (sname s))) BUS_STOPS of
           Some s \<Rightarrow> Some s
         | None \<Rightarrow>
             find (\<lambda>s. list_ex (\<lambda>word. sublist word (lower (sname s)))
                              (split_ws dest_lower)) BUS_STOPS)"
section \<open>Fleet state: facts about the telemetry operations\<close>

lemma query_first_None: "query_first reg db = None \<longleftrightarrow> reg \<notin> bus_reg ` set db"
  by (auto simp: query_first_def find_None_iff)

lemma query_first_Some: "query_first reg db = Some b \<Longrightarrow> b \<in> set db \<and> bus_reg b = reg"
  by (auto simp: query_first_def find_Some_iff)

lemma query_first_commit:
  "query_first reg (commit_row reg f db) = map_option f (query_first reg db)"
  if "\<And>b. bus_reg (f b) = bus_reg b"
  using that by (induction db) (auto simp: query_first_def commit_row_def)

lemma query_first_append:
  "query_first reg (db @ [b]) =
     (case query_first reg db of Some x \<Rightarrow> Some x
      | None \<Rightarrow> if bus_reg b = reg then Some b else None)"
  by (induction db) (auto simp: query_first_def)

lemma query_first_filter_other:
  "reg' \<noteq> reg \<Longrightarrow> query_first reg' (filter (\<lambda>b. bus_reg b \<noteq> reg) db) = query_first reg' db"
  by (induction db) (auto simp: query_first_def)

lemma query_first_filter_same:
  "query_first reg (filter (\<lambda>b. bus_reg b \<noteq> reg) db) = None"
  by (induction db) (auto simp: query_first_def)

lemma filter_key_remove1:
  "distinct (map bus_reg db) \<Longrightarrow> b \<in> set db \<Longrightarrow>
   filter (\<lambda>x. bus_reg x \<noteq> bus_reg b) db = remove1 b db"
proof (induction db)
  case Nil
  then show ?case by simp
next
  case (Cons a db)
  show ?case
  proof (cases "a = b")
    case True
    with Cons.prems have "bus_reg b \<notin> bus_reg ` set db" by simp
    then have "\<forall>x\<in>set db. bus_reg x \<noteq> bus_reg b" by (metis imageI)
    then have "filter (\<lambda>x. bus_reg x \<noteq> bus_reg b) db = db" by (simp add: filter_id_conv)
    with True show ?thesis by simp
  next
    case False
    with Cons.prems have "b \<in> set db" "bus_reg a \<noteq> bus_reg b" by auto
    with Cons show ?thesis using False by simp
  qed
qed

lemma crowd_consistent_commit:
  "crowd_consistent db \<Longrightarrow>
   (\<And>b. crowd_level b = crowd_rule (passenger_count b) \<Longrightarrow>
         crowd_level (f b) = crowd_rule (passenger_count (f b))) \<Longrightarrow>
   crowd_consistent (commit_row reg f db)"
  by (auto simp: crowd_consistent_def commit_row_def list_all_iff)

lemma crowd_consistent_append:
  "crowd_consistent (db @ [b]) \<longleftrightarrow>
   crowd_consistent db \<and> crowd_level b = crowd_rule (passenger_count b)"
  by (auto simp: crowd_consistent_def)

lemma crowd_consistent_filter: "crowd_consistent db \<Longrightarrow> crowd_consistent (filter P db)"
  by (auto simp: crowd_consistent_def list_all_iff)

lemma crowd_rule_values:
  "crowd_rule 0 = ''Low''" "crowd_rule 20 = ''Low''" "crowd_rule 21 = ''Medium''"
  "crowd_rule 40 = ''Medium''" "crowd_rule 41 = ''High''"
  by (simp_all add: crowd_rule_def)

lemma location_preserves:
  "crowd_consistent db \<Longrightarrow> crowd_consistent (fst (update_bus_location req now db))"
  by (auto simp: update_bus_location_def new_bus_def crowd_consistent_append crowd_rule_def
           intro!: crowd_consistent_commit split: option.splits)

lemma start_trip_preserves:
  "crowd_consistent db \<Longrightarrow> crowd_consistent (fst (start_trip reg r now db))"
  by (auto simp: start_trip_def new_bus_def crowd_consistent_append crowd_rule_def
           intro!: crowd_consistent_commit split: option.splits)

lemma end_trip_preserves:
  "crowd_consistent db \<Longrightarrow> crowd_consistent (fst (end_trip reg db))"
  by (auto simp: end_trip_def intro: crowd_consistent_filter split: option.splits)

lemma status_preserves:
  "crowd_consistent db \<Longrightarrow> update_bus_status reg st reason now db = Inr (db', resp) \<Longrightarrow>
   crowd_consistent db'"
  by (auto simp: update_bus_status_def intro!: crowd_consistent_commit split: option.splits)

lemma passengers_preserves:
  "crowd_consistent db \<Longrightarrow> update_passengers reg n now db = Inr (db', resp) \<Longrightarrow>
   crowd_consistent db'"
  by (auto simp: update_passengers_def Let_def crowd_rule_def intro!: crowd_consistent_commit
           split: option.splits)

lemma passengers_recomputes:
  "update_passengers reg n now db = Inr (db', st, lvl, cnt) \<Longrightarrow>
   lvl = crowd_rule n \<and> cnt = n \<and>
   (\<exists>b. query_first reg db' = Some b \<and> passenger_count b = n \<and> crowd_level b = crowd_rule n)"
  by (auto simp: update_passengers_def Let_def crowd_rule_def query_first_commit
           split: option.splits)

lemma location_creates:
  "query_first (lu_bus_reg req) db = None \<Longrightarrow>
   \<exists>b. query_first (lu_bus_reg req) (fst (update_bus_location req now db)) = Some b
      \<and> passenger_count b = 0 \<and> crowd_level b = ''Low''"
  by (simp add: update_bus_location_def query_first_append new_bus_def)

lemma start_trip_resets:
  "\<exists>b. query_first reg (fst (start_trip reg r now db)) = Some b
      \<and> passenger_count b = 0 \<and> crowd_level b = ''Low''"
  by (auto simp: start_trip_def query_first_append new_bus_def query_first_commit
           split: option.splits)

lemma query_first_commit_other:
  "reg' \<noteq> reg \<Longrightarrow> query_first reg' (commit_row reg f db) = query_first reg' db"
  if "\<And>b. bus_reg (f b) = bus_reg b"
  using that by (induction db) (auto simp: query_first_def commit_row_def)

lemma crowd_rule_cases:
  "(n \<le> 20 \<longrightarrow> crowd_rule n = ''Low'') \<and> (21 \<le> n \<and> n \<le> 40 \<longrightarrow> crowd_rule n = ''Medium'')
   \<and> (41 \<le> n \<longrightarrow> crowd_rule n = ''High'')"
  by (simp add: crowd_rule_def)

lemma passengers_succeeds:
  "query_first reg db = Some b0 \<Longrightarrow>
   update_passengers reg n now db =
     Inr (commit_row reg (\<lambda>b. b\<lparr>passenger_count := n, crowd_level := crowd_rule n,
                                  last_update := now\<rparr>) db, ''ok'', crowd_rule n, n)"
  by (auto simp: update_passengers_def Let_def crowd_rule_def)

lemma passengers_fails:
  "query_first reg db = None \<Longrightarrow> update_passengers reg n now db = Inl (NotFound ''Bus not found'')"
  by (simp add: update_passengers_def)

lemma status_succeeds:
  "query_first reg db = Some b0 \<Longrightarrow>
   update_bus_status reg st reason now db =
     Inr (commit_row reg (\<lambda>b. b\<lparr>status := st, delay_reason := reason, last_update := now\<rparr>) db,
          ''ok'', st)"
  by (simp add: update_bus_status_def)

lemma passengers_existing:
  assumes "crowd_consistent db" "query_first reg db = Some b0"
  shows "\<exists>db3. update_passengers reg n now db = Inr (db3, ''ok'', crowd_rule n, n)
             \<and> crowd_consistent db3
             \<and> (\<exists>b. query_first reg db3 = Some b \<and> passenger_count b = n
                    \<and> crowd_level b = crowd_rule n)
             \<and> (\<forall>reg'. reg' \<noteq> reg \<longrightarrow> query_first reg' db3 = query_first reg' db)"
proof -
  let ?f = "\<lambda>b. b\<lparr>passenger_count := n, crowd_level := crowd_rule n, last_update := now\<rparr>"
  let ?db3 = "commit_row reg ?f db"
  have e: "update_passengers reg n now db = Inr (?db3, ''ok'', crowd_rule n, n)"
    by (rule passengers_succeeds [OF assms(2)])
  have c: "crowd_consistent ?db3"
    by (rule crowd_consistent_commit [OF assms(1)]) simp
  have q: "query_first reg ?db3 = Some (?f b0)"
    by (simp add: query_first_commit assms(2))
  have o: "\<forall>reg'. reg' \<noteq> reg \<longrightarrow> query_first reg' ?db3 = query_first reg' db"
    by (simp add: query_first_commit_other)
  from q have "\<exists>b. query_first reg ?db3 = Some b \<and> passenger_count b = n
                    \<and> crowd_level b = crowd_rule n"
    by simp
  with e c o show ?thesis by blast
qed

lemma status_existing:
  assumes "crowd_consistent db" "query_first reg db = Some b0"
  shows "\<exists>db4. update_bus_status reg st reason now db = Inr (db4, ''ok'', st)
             \<and> crowd_consistent db4"
proof -
  let ?db4 = "commit_row reg (\<lambda>b. b\<lparr>status := st, delay_reason := reason, last_update := now\<rparr>) db"
  have "update_bus_status reg st reason now db = Inr (?db4, ''ok'', st)"
    by (rule status_succeeds [OF assms(2)])
  moreover have "crowd_consistent ?db4"
    by (rule crowd_consistent_commit [OF assms(1)]) simp
  ultimately show ?thesis by blast
qed

text \<open>
  C5: the crowd level is the function of the passenger count that maps counts up to 20 to
  Low, 21 to 40 to Medium and 41 or more to High (0, 20, 21, 40, 41 give Low, Low, Medium,
  Medium, High).  Every operation on the fleet keeps each stored crowd level equal to that
  function of the stored passenger count.  Update-passenger-count on an active registration
  succeeds, stores the new count together with the level recomputed from it by that
  function, reports that level and count, and touches no other registration; on a
  registration with no record it fails with "Bus not found".  Update-status on an active
  registration succeeds and keeps the invariant.  Upsert-location on an unknown
  registration and start-trip leave an entry with passenger count 0 and level Low.
\<close>

theorem crowd_level_invariant:
  assumes "crowd_consistent db"
  shows "crowd_rule 0 = ''Low'' \<and> crowd_rule 20 = ''Low'' \<and> crowd_rule 21 = ''Medium''
       \<and> crowd_rule 40 = ''Medium'' \<and> crowd_rule 41 = ''High''
       \<and> (n \<le> 20 \<longrightarrow> crowd_rule n = ''Low'')
       \<and> (21 \<le> n \<and> n \<le> 40 \<longrightarrow> crowd_rule n = ''Medium'')
       \<and> (41 \<le> n \<longrightarrow> crowd_rule n = ''High'')
       \<and> crowd_consistent (fst (update_bus_location req now db))
       \<and> crowd_consistent (fst (start_trip reg r now db))
       \<and> crowd_consistent (fst (end_trip reg db))
       \<and> (update_bus_status reg st reason now db = Inr (db1, resp1) \<longrightarrow> crowd_consistent db1)
       \<and> (update_passengers reg n now db = Inr (db2, ok, lvl, cnt) \<longrightarrow>
            crowd_consistent db2 \<and> lvl = crowd_rule n \<and> cnt = n
          \<and> (\<exists>b. query_first reg db2 = Some b \<and> passenger_count b = n
                 \<and> crowd_level b = crowd_rule n))
       \<and> (query_first reg db = Some b0 \<longrightarrow>
            (\<exists>db3. update_passengers reg n now db = Inr (db3, ''ok'', crowd_rule n, n)
                \<and> crowd_consistent db3
                \<and> (\<exists>b. query_first reg db3 = Some b \<and> passenger_count b = n
                       \<and> crowd_level b = crowd_rule n)
                \<and> (\<forall>reg'. reg' \<noteq> reg \<longrightarrow> query_first reg' db3 = query_first reg' db)))
       \<and> (query_first reg db = None \<longrightarrow>
            update_passengers reg n now db = Inl (NotFound ''Bus not found''))
       \<and> (query_first reg db = Some b0 \<longrightarrow>
            (\<exists>db4. update_bus_status reg st reason now db = Inr (db4, ''ok'', st)
                \<and> crowd_consistent db4))
       \<and> (query_first (lu_bus_reg req) db = None \<longrightarrow>
            (\<exists>b. query_first (lu_bus_reg req) (fst (update_bus_location req now db)) = Some b
               \<and> passenger_count b = 0 \<and> crowd_level b = ''Low''))
       \<and> (\<exists>b. query_first reg (fst (start_trip reg r now db)) = Some b
               \<and> passenger_count b = 0 \<and> crowd_level b = ''Low'')"
proof -
  note pres = location_preserves [OF assms] start_trip_preserves [OF assms]
    end_trip_preserves [OF assms]
  have st: "update_bus_status reg st reason now db = Inr (db1, resp1) \<longrightarrow> crowd_consistent db1"
    using status_preserves [OF assms] by blast
  have pa: "update_passengers reg n now db = Inr (db2, ok, lvl, cnt) \<longrightarrow>
            crowd_consistent db2 \<and> lvl = crowd_rule n \<and> cnt = n
          \<and> (\<exists>b. query_first reg db2 = Some b \<and> passenger_count b = n
                 \<and> crowd_level b = crowd_rule n)"
    using passengers_preserves [OF assms] passengers_recomputes by blast
  have pe: "query_first reg db = Some b0 \<longrightarrow>
            (\<exists>db3. update_passengers reg n now db = Inr (db3, ''ok'', crowd_rule n, n)
                \<and> crowd_consistent db3
                \<and> (\<exists>b. query_first reg db3 = Some b \<and> passenger_count b = n
                       \<and> crowd_level b = crowd_rule n)
                \<and> (\<forall>reg'. reg' \<noteq> reg \<longrightarrow> query_first reg' db3 = query_first reg' db))"
    using passengers_existing [OF assms] by blast
  have pf: "query_first reg db = None \<longrightarrow>
            update_passengers reg n now db = Inl (NotFound ''Bus not found'')"
    using passengers_fails by blast
  have se: "query_first reg db = Some b0 \<longrightarrow>
            (\<exists>db4. update_bus_status reg st reason now db = Inr (db4, ''ok'', st)
                \<and> crowd_consistent db4)"
    using status_existing [OF assms] by blast
  have cr: "query_first (lu_bus_reg req) db = None \<longrightarrow>
            (\<exists>b. query_first (lu_bus_reg req) (fst (update_bus_location req now db)) = Some b
               \<and> passenger_count b = 0 \<and> crowd_level b = ''Low'')"
    using location_creates by blast
  have rs: "\<exists>b. query_first reg (fst (start_trip reg r now db)) = Some b
               \<and> passenger_count b = 0 \<and> crowd_level b = ''Low''"
    by (rule start_trip_resets)
  show ?thesis
    by (intro conjI crowd_rule_values pres st pa pe pf se cr rs
          crowd_rule_cases [THEN conjunct1] crowd_rule_cases [THEN conjunct2, THEN conjunct1]
          crowd_rule_cases [THEN conjunct2, THEN conjunct2])
qed

theorem crowd_level_invariant_witness:
  "crowd_consistent [new_bus ''WB01'' 7]
   \<and> query_first ''WB01'' [new_bus ''WB01'' 7] = Some (new_bus ''WB01'' 7)
   \<and> update_passengers ''WB01'' 41 9 [new_bus ''WB01'' 7]
       = Inr ([(new_bus ''WB01'' 7)\<lparr>passenger_count := 41, crowd_level := ''High'',
                                     last_update := 9\<rparr>], ''ok'', ''High'', 41)
   \<and> crowd_consistent [(new_bus ''WB01'' 7)\<lparr>passenger_count := 41, crowd_level := ''High'',
                                              last_update := 9\<rparr>]
   \<and> (\<exists>db3. update_passengers ''WB01'' 41 9 [new_bus ''WB01'' 7] = Inr (db3, ''ok'', ''High'', 41)
          \<and> crowd_consistent db3)
   \<and> crowd_rule 41 = ''High''
   \<and> query_first ''WB02'' [new_bus ''WB01'' 7] = None
   \<and> crowd_consistent (fst (start_trip ''WB01'' ''S12'' 9 [new_bus ''WB01'' 7]))"
proof -
  let ?db = "[new_bus ''WB01'' 7]"
  let ?db2 = "[(new_bus ''WB01'' 7)\<lparr>passenger_count := 41, crowd_level := ''High'',
                                     last_update := 9\<rparr>]"
  have h: "crowd_consistent ?db"
    by (simp add: crowd_consistent_def new_bus_def crowd_rule_def)
  have g: "query_first ''WB01'' ?db = Some (new_bus ''WB01'' 7)"
    by (simp add: query_first_def new_bus_def)
  have u: "update_passengers ''WB01'' 41 9 ?db = Inr (?db2, ''ok'', ''High'', 41)"
    by (simp add: update_passengers_def Let_def query_first_def commit_row_def new_bus_def)
  have q: "query_first ''WB02'' ?db = None"
    by (simp add: query_first_def new_bus_def)
  let ?req = "\<lparr>lu_bus_reg = ''WB02'', lu_latitude = 0, lu_longitude = 0,
                lu_speed = 0, lu_route_id = ''''\<rparr>"
  note T = crowd_level_invariant [OF h, where reg = "''WB01''" and r = "''S12''" and now = 9
        and n = 41 and ?db2.0 = ?db2 and ok = "''ok''" and lvl = "''High''" and cnt = 41
        and req = ?req and st = "''running''" and reason = "''''" and ?db1.0 = ?db
        and ?resp1.0 = "(''ok'', ''running'')" and ?b0.0 = "new_bus ''WB01'' 7"]
  from T have v: "crowd_rule 41 = ''High''"
    by blast
  from T have s: "crowd_consistent (fst (start_trip ''WB01'' ''S12'' 9 ?db))"
    by blast
  from T u have c: "crowd_consistent ?db2"
    by blast
  from T g have "\<exists>db3. update_passengers ''WB01'' 41 9 ?db = Inr (db3, ''ok'', crowd_rule 41, 41)
          \<and> crowd_consistent db3"
    by blast
  then have x: "\<exists>db3. update_passengers ''WB01'' 41 9 ?db = Inr (db3, ''ok'', ''High'', 41)
          \<and> crowd_consistent db3"
    unfolding v .
  from h g u c x v q s show ?thesis
    by (intro conjI)
qed

text \<open>
  C8: end-trip on a registration with no active record returns the success status
  and leaves the fleet state as it was; when a record exists, end-trip returns the same
  success status and removes that record and no other.
\<close>

theorem end_trip_idempotent_delete:
  "(query_first reg db = None \<longrightarrow> end_trip reg db = (db, ''trip_ended'', reg))
   \<and> (distinct (map bus_reg db) \<and> query_first reg db = Some b \<longrightarrow>
        end_trip reg db = (remove1 b db, ''trip_ended'', reg)
      \<and> query_first reg (fst (end_trip reg db)) = None
      \<and> (\<forall>reg'. reg' \<noteq> reg \<longrightarrow>
            query_first reg' (fst (end_trip reg db)) = query_first reg' db))"
proof (intro conjI impI allI)
  assume "query_first reg db = None"
  then show "end_trip reg db = (db, ''trip_ended'', reg)"
    by (simp add: end_trip_def)
next
  assume h: "distinct (map bus_reg db) \<and> query_first reg db = Some b"
  then have "b \<in> set db" "bus_reg b = reg"
    using query_first_Some by blast+
  with h show "end_trip reg db = (remove1 b db, ''trip_ended'', reg)"
    using filter_key_remove1 [of db b] by (simp add: end_trip_def)
next
  show "query_first reg (fst (end_trip reg db)) = None"
    if "distinct (map bus_reg db) \<and> query_first reg db = Some b"
    using that by (simp add: end_trip_def query_first_filter_same)
next
  fix reg'
  assume "reg' \<noteq> reg"
  then show "query_first reg' (fst (end_trip reg db)) = query_first reg' db"
    by (simp add: end_trip_def query_first_filter_other split: option.splits)
qed

theorem end_trip_idempotent_delete_witness:
  "query_first ''WB09'' [new_bus ''WB01'' 7, new_bus ''WB02'' 8] = None
   \<and> end_trip ''WB09'' [new_bus ''WB01'' 7, new_bus ''WB02'' 8]
       = ([new_bus ''WB01'' 7, new_bus ''WB02'' 8], ''trip_ended'', ''WB09'')
   \<and> distinct (map bus_reg [new_bus ''WB01'' 7, new_bus ''WB02'' 8])
   \<and> query_first ''WB01'' [new_bus ''WB01'' 7, new_bus ''WB02'' 8] = Some (new_bus ''WB01'' 7)
   \<and> end_trip ''WB01'' [new_bus ''WB01'' 7, new_bus ''WB02'' 8]
       = ([new_bus ''WB02'' 8], ''trip_ended'', ''WB01'')
   \<and> query_first ''WB02'' (fst (end_trip ''WB01'' [new_bus ''WB01'' 7, new_bus ''WB02'' 8]))
       = Some (new_bus ''WB02'' 8)"
proof -
  let ?db = "[new_bus ''WB01'' 7, new_bus ''WB02'' 8]"
  have a: "query_first ''WB09'' ?db = None"
    by (simp add: query_first_def new_bus_def)
  have b: "distinct (map bus_reg ?db)"
    by (simp add: new_bus_def)
  have c: "query_first ''WB01'' ?db = Some (new_bus ''WB01'' 7)"
    by (simp add: query_first_def new_bus_def)
  have d: "query_first ''WB02'' ?db = Some (new_bus ''WB02'' 8)"
    by (simp add: query_first_def new_bus_def)
  have e: "remove1 (new_bus ''WB01'' 7) ?db = [new_bus ''WB02'' 8]"
    by simp
  have t1: "end_trip ''WB09'' ?db = (?db, ''trip_ended'', ''WB09'')"
    using end_trip_idempotent_delete [of "''WB09''" ?db] a by blast
  have t2: "end_trip ''WB01'' ?db = (remove1 (new_bus ''WB01'' 7) ?db, ''trip_ended'', ''WB01'')"
    and t3: "\<forall>reg'. reg' \<noteq> ''WB01'' \<longrightarrow>
               query_first reg' (fst (end_trip ''WB01'' ?db)) = query_first reg' ?db"
    using end_trip_idempotent_delete [of "''WB01''" ?db "new_bus ''WB01'' 7"] b c by blast+
  have ne: "''WB02'' \<noteq> ''WB01''" by simp
  have t4: "query_first ''WB02'' (fst (end_trip ''WB01'' ?db)) = query_first ''WB02'' ?db"
    by (rule t3 [rule_format, OF ne])
  from a b c t1 t2 [unfolded e] t4 [unfolded d] show ?thesis
    by (intro conjI)
qed

text \<open>
  C9: upsert-location on an existing registration stores the request's latitude,
  longitude and speed and the current time as last-update, never changes the passenger
  count or the crowd level, and, when the request's route id is empty, leaves the stored
  route id as it was.
\<close>

theorem upsert_location_frame:
  assumes "query_first (lu_bus_reg req) db = Some b"
  shows "\<exists>b'. query_first (lu_bus_reg req) (fst (update_bus_location req now db)) = Some b'
             \<and> latitude b' = lu_latitude req \<and> longitude b' = lu_longitude req
             \<and> speed b' = lu_speed req \<and> last_update b' = now
             \<and> passenger_count b' = passenger_count b \<and> crowd_level b' = crowd_level b
             \<and> (lu_route_id req = '''' \<longrightarrow> route_id b' = route_id b)"
  using assms by (simp add: update_bus_location_def query_first_commit)

theorem upsert_location_frame_witness:
  "query_first ''WB01'' [(new_bus ''WB01'' 7)\<lparr>route_id := ''S12'', passenger_count := 30,
                                               crowd_level := ''Medium''\<rparr>]
     = Some ((new_bus ''WB01'' 7)\<lparr>route_id := ''S12'', passenger_count := 30,
                                   crowd_level := ''Medium''\<rparr>)
   \<and> (\<exists>b'. query_first ''WB01''
               (fst (update_bus_location
                  \<lparr>lu_bus_reg = ''WB01'', lu_latitude = 22.5, lu_longitude = 88.3,
                   lu_speed = 12, lu_route_id = ''''\<rparr> 9
                  [(new_bus ''WB01'' 7)\<lparr>route_id := ''S12'', passenger_count := 30,
                                         crowd_level := ''Medium''\<rparr>])) = Some b'
         \<and> latitude b' = 22.5 \<and> longitude b' = 88.3 \<and> speed b' = 12 \<and> last_update b' = 9
         \<and> passenger_count b' = 30 \<and> crowd_level b' = ''Medium'' \<and> route_id b' = ''S12'')"
proof -
  let ?b = "(new_bus ''WB01'' 7)\<lparr>route_id := ''S12'', passenger_count := 30,
                                   crowd_level := ''Medium''\<rparr>"
  let ?req = "\<lparr>lu_bus_reg = ''WB01'', lu_latitude = 22.5, lu_longitude = 88.3,
                   lu_speed = 12, lu_route_id = ''''\<rparr>"
  have h: "query_first (lu_bus_reg ?req) [?b] = Some ?b"
    by (simp add: query_first_def new_bus_def)
  show ?thesis
    using h upsert_location_frame [OF h, of 9] by (simp add: new_bus_def)
qed


section \<open>Catalog facts\<close>

lemma route_simps:
  "rid route_S12 = ''S12''" "rname route_S12 = ''S12''" "fare_min route_S12 = 10" "frequency_min route_S12 = 10"
  "rid route_AC1 = ''AC1''" "rname route_AC1 = ''AC1''" "fare_min route_AC1 = 25" "frequency_min route_AC1 = 15"
  "rid route_45A = ''45A''" "rname route_45A = ''45A''" "fare_min route_45A = 8" "frequency_min route_45A = 8"
  "rid route_DN9 = ''DN9''" "rname route_DN9 = ''DN9''" "fare_min route_DN9 = 10" "frequency_min route_DN9 = 12"
  "rid route_S9 = ''S9''" "rname route_S9 = ''S9''" "fare_min route_S9 = 10" "frequency_min route_S9 = 10"
  "rid route_AC2 = ''AC2''" "rname route_AC2 = ''AC2''" "fare_min route_AC2 = 25" "frequency_min route_AC2 = 20"
  "rid route_230 = ''230''" "rname route_230 = ''230''" "fare_min route_230 = 8" "frequency_min route_230 = 10"
  "rid route_12B = ''12B''" "rname route_12B = ''12B/1''" "fare_min route_12B = 8" "frequency_min route_12B = 7"
  "rid route_201 = ''201''" "rname route_201 = ''201''" "fare_min route_201 = 12" "frequency_min route_201 = 15"
  "rid route_AC9 = ''AC9''" "rname route_AC9 = ''AC9''" "fare_min route_AC9 = 30" "frequency_min route_AC9 = 20"
  "rid route_S32 = ''S32''" "rname route_S32 = ''S32''" "fare_min route_S32 = 10" "frequency_min route_S32 = 12"
  "rid route_46A = ''46A''" "rname route_46A = ''46A''" "fare_min route_46A = 8" "frequency_min route_46A = 8"
  "rid route_S5 = ''S5''" "rname route_S5 = ''S5''" "fare_min route_S5 = 12" "frequency_min route_S5 = 12"
  "rid route_DN20 = ''DN20''" "rname route_DN20 = ''DN20''" "fare_min route_DN20 = 12" "frequency_min route_DN20 = 15"
  "rid route_AC47 = ''AC47''" "rname route_AC47 = ''AC47''" "fare_min route_AC47 = 25" "frequency_min route_AC47 = 15"
  "rid route_78 = ''78''" "rname route_78 = ''78''" "fare_min route_78 = 10" "frequency_min route_78 = 10"
  "rid route_S11 = ''S11''" "rname route_S11 = ''S11''" "fare_min route_S11 = 10" "frequency_min route_S11 = 12"
  "rid route_215 = ''215''" "rname route_215 = ''215''" "fare_min route_215 = 10" "frequency_min route_215 = 15"
  "rid route_L230 = ''L230''" "rname route_L230 = ''L230''" "fare_min route_L230 = 8" "frequency_min route_L230 = 8"
  "rid route_AC3 = ''AC3''" "rname route_AC3 = ''AC3''" "fare_min route_AC3 = 30" "frequency_min route_AC3 = 20"
  "rid route_S41 = ''S41''" "rname route_S41 = ''S41''" "fare_min route_S41 = 12" "frequency_min route_S41 = 15"
  "rid route_E32 = ''E32''" "rname route_E32 = ''E32''" "fare_min route_E32 = 12" "frequency_min route_E32 = 12"
  "rid route_MM12 = ''MM12''" "rname route_MM12 = ''MM12''" "fare_min route_MM12 = 8" "frequency_min route_MM12 = 10"
  "rid route_AC20 = ''AC20''" "rname route_AC20 = ''AC20''" "fare_min route_AC20 = 30" "frequency_min route_AC20 = 25"
  "rid route_S6 = ''S6''" "rname route_S6 = ''S6''" "fare_min route_S6 = 8" "frequency_min route_S6 = 8"
  "rid route_34 = ''34''" "rname route_34 = ''34''" "fare_min route_34 = 8" "frequency_min route_34 = 7"
  "rid route_203 = ''203''" "rname route_203 = ''203''" "fare_min route_203 = 10" "frequency_min route_203 = 12"
  "rid route_AC36 = ''AC36''" "rname route_AC36 = ''AC36''" "fare_min route_AC36 = 25" "frequency_min route_AC36 = 20"
  "rid route_S15 = ''S15''" "rname route_S15 = ''S15''" "fare_min route_S15 = 10" "frequency_min route_S15 = 12"
  "rid route_DN44 = ''DN44''" "rname route_DN44 = ''DN44''" "fare_min route_DN44 = 10" "frequency_min route_DN44 = 12"
  by (simp_all add: route_S12_def route_AC1_def route_45A_def route_DN9_def route_S9_def route_AC2_def route_230_def route_12B_def route_201_def route_AC9_def route_S32_def route_46A_def route_S5_def route_DN20_def route_AC47_def route_78_def route_S11_def route_215_def route_L230_def route_AC3_def route_S41_def route_E32_def route_MM12_def route_AC20_def route_S6_def route_34_def route_203_def route_AC36_def route_S15_def route_DN44_def)

lemma stop_simps:
  "sid stop_hw = ''hw''" "sname stop_hw = ''Howrah Station''" "routes stop_hw = [''S12'', ''230'', ''12B'', ''S11'', ''AC20'', ''S15'', ''S41'', ''AC47'']"
  "sid stop_es = ''es''" "sname stop_es = ''Esplanade''" "routes stop_es = [''45A'', ''AC9'', ''S5'', ''78'', ''AC3'', ''34'']"
  "sid stop_sd = ''sd''" "sname stop_sd = ''Sealdah Station''" "routes stop_sd = [''S32'', ''S6'', ''203'', ''215'']"
  "sid stop_nt = ''nt''" "sname stop_nt = ''New Town City Centre''" "routes stop_nt = [''S12'', ''AC3'']"
  "sid stop_sl5 = ''sl5''" "sname stop_sl5 = ''Salt Lake Sector V''" "routes stop_sl5 = [''S9'', ''S6'', ''S15'']"
  "sid stop_ga = ''ga''" "sname stop_ga = ''Garia Station''" "routes stop_ga = [''45A'', ''AC2'', ''DN20'', ''L230'', ''203'', ''S41'']"
  "sid stop_jp = ''jp''" "sname stop_jp = ''Jadavpur''" "routes stop_jp = [''AC1'', ''34'', ''DN44'']"
  "sid stop_ap = ''ap''" "sname stop_ap = ''Airport (NSCBI)''" "routes stop_ap = [''AC1'', ''AC9'', ''215'', ''AC20'']"
  "sid stop_dl = ''dl''" "sname stop_dl = ''Dunlop''" "routes stop_dl = [''DN9'', ''DN20'', ''DN44'']"
  "sid stop_bb = ''bb''" "sname stop_bb = ''Babughat''" "routes stop_bb = [''DN9'', ''201'', ''L230'']"
  "sid stop_br = ''br''" "sname stop_br = ''Barasat''" "routes stop_br = [''201'', ''78'', ''AC36'']"
  "sid stop_tg = ''tg''" "sname stop_tg = ''Tollygunge''" "routes stop_tg = [''12B'', ''AC36'']"
  "sid stop_km = ''km''" "sname stop_km = ''Karunamoyee''" "routes stop_km = [''AC2'', ''S11'']"
  "sid stop_rb = ''rb''" "sname stop_rb = ''Ruby Hospital''" "routes stop_rb = [''46A'', ''DN20'']"
  "sid stop_sh = ''sh''" "sname stop_sh = ''Shyambazar''" "routes stop_sh = [''DN9'', ''S32'', ''DN44'']"
  "sid stop_pc = ''pc''" "sname stop_pc = ''Park Circus''" "routes stop_pc = [''46A'']"
  "sid stop_sc = ''sc''" "sname stop_sc = ''Science City''" "routes stop_sc = [''AC2'']"
  "sid stop_bh = ''bh''" "sname stop_bh = ''Behala''" "routes stop_bh = [''230'', ''MM12'']"
  "sid stop_jk = ''jk''" "sname stop_jk = ''Joka''" "routes stop_jk = [''230'']"
  "sid stop_bp = ''bp''" "sname stop_bp = ''Barrackpore''" "routes stop_bp = [''S5'', ''E32'']"
  "sid stop_dd = ''dd''" "sname stop_dd = ''Dum Dum''" "routes stop_dd = [''201'', ''78'']"
  "sid stop_ul = ''ul''" "sname stop_ul = ''Ultadanga''" "routes stop_ul = [''S9'', ''E32'']"
  "sid stop_gh = ''gh''" "sname stop_gh = ''Gariahat''" "routes stop_gh = [''34'']"
  "sid stop_kg = ''kg''" "sname stop_kg = ''Kalighat''" "routes stop_kg = [''12B'']"
  "sid stop_ml = ''ml''" "sname stop_ml = ''Moulali''" "routes stop_ml = [''AC47'']"
  "sid stop_sl1 = ''sl1''" "sname stop_sl1 = ''Salt Lake Sector I''" "routes stop_sl1 = [''S12'', ''S6'', ''AC3'']"
  "sid stop_bbd = ''bbd''" "sname stop_bbd = ''BBD Bagh''" "routes stop_bbd = [''MM12'']"
  "sid stop_dk = ''dk''" "sname stop_dk = ''Dankuni''" "routes stop_dk = [''S32'']"
  "sid stop_rh = ''rh''" "sname stop_rh = ''Rashbehari''" "routes stop_rh = [''45A'']"
  "sid stop_vip = ''vip''" "sname stop_vip = ''VIP Road''" "routes stop_vip = [''AC9'', ''215'']"
  "sid stop_by = ''by''" "sname stop_by = ''Baruipur''" "routes stop_by = [''S41'']"
  "sid stop_dh = ''dh''" "sname stop_dh = ''Diamond Harbour Road''" "routes stop_dh = [''MM12'']"
  "sid stop_js = ''js''" "sname stop_js = ''Jessore Road''" "routes stop_js = [''AC36'', ''78'']"
  "sid stop_np = ''np''" "sname stop_np = ''Nicco Park''" "routes stop_np = [''S15'']"
  "sid stop_sr = ''sr''" "sname stop_sr = ''Sonarpur''" "routes stop_sr = [''203'']"
  "sid stop_ct = ''ct''" "sname stop_ct = ''CIT Road''" "routes stop_ct = [''S6'']"
  "sid stop_bn = ''bn''" "sname stop_bn = ''Baranagar''" "routes stop_bn = [''S5'']"
  "sid stop_eb = ''eb''" "sname stop_eb = ''EM Bypass Connector''" "routes stop_eb = [''AC1'', ''DN20'', ''AC20'']"
  "sid stop_ht = ''ht''" "sname stop_ht = ''Hatibagan''" "routes stop_ht = [''DN9'']"
  "sid stop_np2 = ''np2''" "sname stop_np2 = ''New Alipore''" "routes stop_np2 = [''230'']"
  "sid stop_pb = ''pb''" "sname stop_pb = ''Prince Anwar Shah Road''" "routes stop_pb = [''AC2'', ''DN20'']"
  "sid stop_lk = ''lk''" "sname stop_lk = ''Lake Town''" "routes stop_lk = [''E32'', ''215'']"
  "sid stop_cg = ''cg''" "sname stop_cg = ''College Street''" "routes stop_cg = [''DN9'', ''S32'']"
  "sid stop_wr = ''wr''" "sname stop_wr = ''Wireless Crossing''" "routes stop_wr = [''46A'', ''AC2'']"
  "sid stop_nb = ''nb''" "sname stop_nb = ''Nabanna''" "routes stop_nb = [''230'']"
  "sid stop_sg = ''sg''" "sname stop_sg = ''Salt Lake Gate''" "routes stop_sg = [''S12'', ''S9'', ''S6'', ''S15'']"
  "sid stop_sb = ''sb''" "sname stop_sb = ''Santoshpur''" "routes stop_sb = [''203'', ''E32'']"
  "sid stop_kr = ''kr''" "sname stop_kr = ''Kona Expressway''" "routes stop_kr = [''AC20'']"
  "sid stop_tb = ''tb''" "sname stop_tb = ''Taratala''" "routes stop_tb = [''230'', ''MM12'']"
  "sid stop_gl = ''gl''" "sname stop_gl = ''Golf Green''" "routes stop_gl = [''DN20'', ''AC2'']"
  "sid stop_blr = ''blr''" "sname stop_blr = ''Belur Math''" "routes stop_blr = [''S5'', ''S15'']"
  "sid stop_dks = ''dks''" "sname stop_dks = ''Dakshineswar''" "routes stop_dks = [''DN9'', ''S5'']"
  "sid stop_svb = ''svb''" "sname stop_svb = ''Sovabazar''" "routes stop_svb = [''DN9'', ''S32'']"
  "sid stop_bhw = ''bhw''" "sname stop_bhw = ''Bhawanipur''" "routes stop_bhw = [''12B'', ''34'']"
  "sid stop_hz = ''hz''" "sname stop_hz = ''Hazra''" "routes stop_hz = [''45A'', ''34'']"
  "sid stop_ld = ''ld''" "sname stop_ld = ''Lansdowne''" "routes stop_ld = [''12B'', ''AC36'']"
  "sid stop_blg = ''blg''" "sname stop_blg = ''Ballygunge''" "routes stop_blg = [''34'', ''AC1'']"
  "sid stop_ksb = ''ksb''" "sname stop_ksb = ''Kasba''" "routes stop_ksb = [''AC2'', ''203'']"
  "sid stop_rp = ''rp''" "sname stop_rp = ''Regent Park''" "routes stop_rp = [''46A'', ''AC2'']"
  "sid stop_mk = ''mk''" "sname stop_mk = ''Maniktala''" "routes stop_mk = [''E32'', ''DN44'']"
  "sid stop_blc = ''blc''" "sname stop_blc = ''Belgachia''" "routes stop_blc = [''DN9'', ''201'']"
  "sid stop_csp = ''csp''" "sname stop_csp = ''Cossipore''" "routes stop_csp = [''S5'', ''DN44'']"
  "sid stop_sdp = ''sdp''" "sname stop_sdp = ''Sodepur''" "routes stop_sdp = [''S5'', ''201'']"
  "sid stop_nht = ''nht''" "sname stop_nht = ''Naihati''" "routes stop_nht = [''E32'']"
  "sid stop_chn = ''chn''" "sname stop_chn = ''Chandannagar''" "routes stop_chn = [''S32'']"
  "sid stop_bly = ''bly''" "sname stop_bly = ''Bally''" "routes stop_bly = [''12B'', ''S15'']"
  "sid stop_llh = ''llh''" "sname stop_llh = ''Liluah''" "routes stop_llh = [''AC20'', ''S11'']"
  "sid stop_belg = ''belg''" "sname stop_belg = ''Belgharia''" "routes stop_belg = [''201'', ''78'']"
  "sid stop_mdg = ''mdg''" "sname stop_mdg = ''Madhyamgram''" "routes stop_mdg = [''78'', ''AC36'']"
  "sid stop_rjh = ''rjh''" "sname stop_rjh = ''Rajarhat''" "routes stop_rjh = [''AC3'', ''S12'']"
  "sid stop_cnp = ''cnp''" "sname stop_cnp = ''Chinar Park''" "routes stop_cnp = [''AC3'', ''S9'']"
  "sid stop_bgti = ''bgti''" "sname stop_bgti = ''Baguiati''" "routes stop_bgti = [''215'', ''AC9'']"
  "sid stop_plb = ''plb''" "sname stop_plb = ''Phoolbagan''" "routes stop_plb = [''S6'', ''AC47'']"
  "sid stop_ent = ''ent''" "sname stop_ent = ''Entally''" "routes stop_ent = [''AC47'', ''46A'']"
  "sid stop_bwb = ''bwb''" "sname stop_bwb = ''Bow Barracks''" "routes stop_bwb = [''45A'', ''AC47'']"
  "sid stop_dmt = ''dmt''" "sname stop_dmt = ''Dharmatala''" "routes stop_dmt = [''45A'', ''78'', ''AC9'']"
  "sid stop_mdn = ''mdn''" "sname stop_mdn = ''Maidan''" "routes stop_mdn = [''34'', ''230'', ''12B'']"
  "sid stop_ndn = ''ndn''" "sname stop_ndn = ''Nandan''" "routes stop_ndn = [''34'', ''AC36'']"
  "sid stop_exc = ''exc''" "sname stop_exc = ''Exide Crossing''" "routes stop_exc = [''45A'', ''AC1'']"
  "sid stop_rbs = ''rbs''" "sname stop_rbs = ''Rabindra Sadan''" "routes stop_rbs = [''12B'', ''34'', ''AC36'']"
  by (simp_all add: stop_hw_def stop_es_def stop_sd_def stop_nt_def stop_sl5_def stop_ga_def stop_jp_def stop_ap_def stop_dl_def stop_bb_def stop_br_def stop_tg_def stop_km_def stop_rb_def stop_sh_def stop_pc_def stop_sc_def stop_bh_def stop_jk_def stop_bp_def stop_dd_def stop_ul_def stop_gh_def stop_kg_def stop_ml_def stop_sl1_def stop_bbd_def stop_dk_def stop_rh_def stop_vip_def stop_by_def stop_dh_def stop_js_def stop_np_def stop_sr_def stop_ct_def stop_bn_def stop_eb_def stop_ht_def stop_np2_def stop_pb_def stop_lk_def stop_cg_def stop_wr_def stop_nb_def stop_sg_def stop_sb_def stop_kr_def stop_tb_def stop_gl_def stop_blr_def stop_dks_def stop_svb_def stop_bhw_def stop_hz_def stop_ld_def stop_blg_def stop_ksb_def stop_rp_def stop_mk_def stop_blc_def stop_csp_def stop_sdp_def stop_nht_def stop_chn_def stop_bly_def stop_llh_def stop_belg_def stop_mdg_def stop_rjh_def stop_cnp_def stop_bgti_def stop_plb_def stop_ent_def stop_bwb_def stop_dmt_def stop_mdn_def stop_ndn_def stop_exc_def stop_rbs_def)

lemma stop_coords:
  "lat stop_hw = 22.5839" "lng stop_hw = 88.3430"
  "lat stop_es = 22.5554" "lng stop_es = 88.3520"
  "lat stop_sd = 22.5684" "lng stop_sd = 88.3733"
  "lat stop_nt = 22.5941" "lng stop_nt = 88.4842"
  "lat stop_sl5 = 22.5726" "lng stop_sl5 = 88.4319"
  "lat stop_ga = 22.4590" "lng stop_ga = 88.3852"
  "lat stop_jp = 22.4987" "lng stop_jp = 88.3692"
  "lat stop_ap = 22.6520" "lng stop_ap = 88.4463"
  "lat stop_dl = 22.6460" "lng stop_dl = 88.3784"
  "lat stop_bb = 22.5636" "lng stop_bb = 88.3400"
  "lat stop_br = 22.7235" "lng stop_br = 88.4802"
  "lat stop_tg = 22.4985" "lng stop_tg = 88.3470"
  "lat stop_km = 22.5772" "lng stop_km = 88.4041"
  "lat stop_rb = 22.5145" "lng stop_rb = 88.3988"
  "lat stop_sh = 22.5956" "lng stop_sh = 88.3716"
  "lat stop_pc = 22.5393" "lng stop_pc = 88.3695"
  "lat stop_sc = 22.5403" "lng stop_sc = 88.3960"
  "lat stop_bh = 22.4889" "lng stop_bh = 88.3100"
  "lat stop_jk = 22.4487" "lng stop_jk = 88.3095"
  "lat stop_bp = 22.7584" "lng stop_bp = 88.3685"
  "lat stop_dd = 22.6224" "lng stop_dd = 88.4218"
  "lat stop_ul = 22.5813" "lng stop_ul = 88.3900"
  "lat stop_gh = 22.5183" "lng stop_gh = 88.3667"
  "lat stop_kg = 22.5240" "lng stop_kg = 88.3440"
  "lat stop_ml = 22.5568" "lng stop_ml = 88.3590"
  "lat stop_sl1 = 22.5800" "lng stop_sl1 = 88.4100"
  "lat stop_bbd = 22.5728" "lng stop_bbd = 88.3488"
  "lat stop_dk = 22.6784" "lng stop_dk = 88.2931"
  "lat stop_rh = 22.5175" "lng stop_rh = 88.3544"
  "lat stop_vip = 22.6093" "lng stop_vip = 88.4260"
  "lat stop_by = 22.3581" "lng stop_by = 88.4305"
  "lat stop_dh = 22.4830" "lng stop_dh = 88.3200"
  "lat stop_js = 22.6300" "lng stop_js = 88.4000"
  "lat stop_np = 22.5756" "lng stop_np = 88.4150"
  "lat stop_sr = 22.4350" "lng stop_sr = 88.4150"
  "lat stop_ct = 22.5650" "lng stop_ct = 88.3850"
  "lat stop_bn = 22.6388" "lng stop_bn = 88.3788"
  "lat stop_eb = 22.5316" "lng stop_eb = 88.3978"
  "lat stop_ht = 22.5880" "lng stop_ht = 88.3630"
  "lat stop_np2 = 22.5070" "lng stop_np2 = 88.3330"
  "lat stop_pb = 22.5050" "lng stop_pb = 88.3780"
  "lat stop_lk = 22.5942" "lng stop_lk = 88.3920"
  "lat stop_cg = 22.5730" "lng stop_cg = 88.3630"
  "lat stop_wr = 22.5260" "lng stop_wr = 88.3910"
  "lat stop_nb = 22.5588" "lng stop_nb = 88.3168"
  "lat stop_sg = 22.5760" "lng stop_sg = 88.4050"
  "lat stop_sb = 22.4770" "lng stop_sb = 88.3930"
  "lat stop_kr = 22.5760" "lng stop_kr = 88.3100"
  "lat stop_tb = 22.5050" "lng stop_tb = 88.3180"
  "lat stop_gl = 22.4970" "lng stop_gl = 88.3920"
  "lat stop_blr = 22.6308" "lng stop_blr = 88.3527"
  "lat stop_dks = 22.6548" "lng stop_dks = 88.3576"
  "lat stop_svb = 22.5881" "lng stop_svb = 88.3598"
  "lat stop_bhw = 22.5267" "lng stop_bhw = 88.3450"
  "lat stop_hz = 22.5237" "lng stop_hz = 88.3510"
  "lat stop_ld = 22.5150" "lng stop_ld = 88.3480"
  "lat stop_blg = 22.5268" "lng stop_blg = 88.3640"
  "lat stop_ksb = 22.5100" "lng stop_ksb = 88.3870"
  "lat stop_rp = 22.5190" "lng stop_rp = 88.3850"
  "lat stop_mk = 22.5870" "lng stop_mk = 88.3800"
  "lat stop_blc = 22.6020" "lng stop_blc = 88.3700"
  "lat stop_csp = 22.6100" "lng stop_csp = 88.3680"
  "lat stop_sdp = 22.6950" "lng stop_sdp = 88.3920"
  "lat stop_nht = 22.8930" "lng stop_nht = 88.4220"
  "lat stop_chn = 22.8672" "lng stop_chn = 88.3630"
  "lat stop_bly = 22.6500" "lng stop_bly = 88.3400"
  "lat stop_llh = 22.6250" "lng stop_llh = 88.3340"
  "lat stop_belg = 22.6650" "lng stop_belg = 88.3880"
  "lat stop_mdg = 22.6800" "lng stop_mdg = 88.4500"
  "lat stop_rjh = 22.5990" "lng stop_rjh = 88.4750"
  "lat stop_cnp = 22.6020" "lng stop_cnp = 88.4550"
  "lat stop_bgti = 22.6120" "lng stop_bgti = 88.4200"
  "lat stop_plb = 22.5720" "lng stop_plb = 88.3850"
  "lat stop_ent = 22.5630" "lng stop_ent = 88.3700"
  "lat stop_bwb = 22.5580" "lng stop_bwb = 88.3610"
  "lat stop_dmt = 22.5550" "lng stop_dmt = 88.3530"
  "lat stop_mdn = 22.5500" "lng stop_mdn = 88.3455"
  "lat stop_ndn = 22.5280" "lng stop_ndn = 88.3500"
  "lat stop_exc = 22.5320" "lng stop_exc = 88.3530"
  "lat stop_rbs = 22.5310" "lng stop_rbs = 88.3470"
  by (simp_all add: stop_hw_def stop_es_def stop_sd_def stop_nt_def stop_sl5_def stop_ga_def stop_jp_def stop_ap_def stop_dl_def stop_bb_def stop_br_def stop_tg_def stop_km_def stop_rb_def stop_sh_def stop_pc_def stop_sc_def stop_bh_def stop_jk_def stop_bp_def stop_dd_def stop_ul_def stop_gh_def stop_kg_def stop_ml_def stop_sl1_def stop_bbd_def stop_dk_def stop_rh_def stop_vip_def stop_by_def stop_dh_def stop_js_def stop_np_def stop_sr_def stop_ct_def stop_bn_def stop_eb_def stop_ht_def stop_np2_def stop_pb_def stop_lk_def stop_cg_def stop_wr_def stop_nb_def stop_sg_def stop_sb_def stop_kr_def stop_tb_def stop_gl_def stop_blr_def stop_dks_def stop_svb_def stop_bhw_def stop_hz_def stop_ld_def stop_blg_def stop_ksb_def stop_rp_def stop_mk_def stop_blc_def stop_csp_def stop_sdp_def stop_nht_def stop_chn_def stop_bly_def stop_llh_def stop_belg_def stop_mdg_def stop_rjh_def stop_cnp_def stop_bgti_def stop_plb_def stop_ent_def stop_bwb_def stop_dmt_def stop_mdn_def stop_ndn_def stop_exc_def stop_rbs_def)

lemma lower_names:
  "lower ''Howrah Station'' = ''howrah station''"
  "lower ''Esplanade'' = ''esplanade''"
  "lower ''Sealdah Station'' = ''sealdah station''"
  "lower ''New Town City Centre'' = ''new town city centre''"
  "lower ''Salt Lake Sector V'' = ''salt lake sector v''"
  "lower ''Garia Station'' = ''garia station''"
  "lower ''Jadavpur'' = ''jadavpur''"
  "lower ''Airport (NSCBI)'' = ''airport (nscbi)''"
  "lower ''Dunlop'' = ''dunlop''"
  "lower ''Babughat'' = ''babughat''"
  "lower ''Barasat'' = ''barasat''"
  "lower ''Tollygunge'' = ''tollygunge''"
  "lower ''Karunamoyee'' = ''karunamoyee''"
  "lower ''Ruby Hospital'' = ''ruby hospital''"
  "lower ''Shyambazar'' = ''shyambazar''"
  "lower ''Park Circus'' = ''park circus''"
  "lower ''Science City'' = ''science city''"
  "lower ''Behala'' = ''behala''"
  "lower ''Joka'' = ''joka''"
  "lower ''Barrackpore'' = ''barrackpore''"
  "lower ''Dum Dum'' = ''dum dum''"
  "lower ''Ultadanga'' = ''ultadanga''"
  "lower ''Gariahat'' = ''gariahat''"
  "lower ''Kalighat'' = ''kalighat''"
  "lower ''Moulali'' = ''moulali''"
  "lower ''Salt Lake Sector I'' = ''salt lake sector i''"
  "lower ''BBD Bagh'' = ''bbd bagh''"
  "lower ''Dankuni'' = ''dankuni''"
  "lower ''Rashbehari'' = ''rashbehari''"
  "lower ''VIP Road'' = ''vip road''"
  "lower ''Baruipur'' = ''baruipur''"
  "lower ''Diamond Harbour Road'' = ''diamond harbour road''"
  "lower ''Jessore Road'' = ''jessore road''"
  "lower ''Nicco Park'' = ''nicco park''"
  "lower ''Sonarpur'' = ''sonarpur''"
  "lower ''CIT Road'' = ''cit road''"
  "lower ''Baranagar'' = ''baranagar''"
  "lower ''EM Bypass Connector'' = ''em bypass connector''"
  "lower ''Hatibagan'' = ''hatibagan''"
  "lower ''New Alipore'' = ''new alipore''"
  "lower ''Prince Anwar Shah Road'' = ''prince anwar shah road''"
  "lower ''Lake Town'' = ''lake town''"
  "lower ''College Street'' = ''college street''"
  "lower ''Wireless Crossing'' = ''wireless crossing''"
  "lower ''Nabanna'' = ''nabanna''"
  "lower ''Salt Lake Gate'' = ''salt lake gate''"
  "lower ''Santoshpur'' = ''santoshpur''"
  "lower ''Kona Expressway'' = ''kona expressway''"
  "lower ''Taratala'' = ''taratala''"
  "lower ''Golf Green'' = ''golf green''"
  "lower ''Belur Math'' = ''belur math''"
  "lower ''Dakshineswar'' = ''dakshineswar''"
  "lower ''Sovabazar'' = ''sovabazar''"
  "lower ''Bhawanipur'' = ''bhawanipur''"
  "lower ''Hazra'' = ''hazra''"
  "lower ''Lansdowne'' = ''lansdowne''"
  "lower ''Ballygunge'' = ''ballygunge''"
  "lower ''Kasba'' = ''kasba''"
  "lower ''Regent Park'' = ''regent park''"
  "lower ''Maniktala'' = ''maniktala''"
  "lower ''Belgachia'' = ''belgachia''"
  "lower ''Cossipore'' = ''cossipore''"
  "lower ''Sodepur'' = ''sodepur''"
  "lower ''Naihati'' = ''naihati''"
  "lower ''Chandannagar'' = ''chandannagar''"
  "lower ''Bally'' = ''bally''"
  "lower ''Liluah'' = ''liluah''"
  "lower ''Belgharia'' = ''belgharia''"
  "lower ''Madhyamgram'' = ''madhyamgram''"
  "lower ''Rajarhat'' = ''rajarhat''"
  "lower ''Chinar Park'' = ''chinar park''"
  "lower ''Baguiati'' = ''baguiati''"
  "lower ''Phoolbagan'' = ''phoolbagan''"
  "lower ''Entally'' = ''entally''"
  "lower ''Bow Barracks'' = ''bow barracks''"
  "lower ''Dharmatala'' = ''dharmatala''"
  "lower ''Maidan'' = ''maidan''"
  "lower ''Nandan'' = ''nandan''"
  "lower ''Exide Crossing'' = ''exide crossing''"
  "lower ''Rabindra Sadan'' = ''rabindra sadan''"
  by (simp_all add: lower_def lower_char_def upper_letters_def lower_letters_def)

lemma strip_lower_names:
  "strip ''howrah station'' = ''howrah station''"
  "strip ''esplanade'' = ''esplanade''"
  "strip ''sealdah station'' = ''sealdah station''"
  "strip ''new town city centre'' = ''new town city centre''"
  "strip ''salt lake sector v'' = ''salt lake sector v''"
  "strip ''garia station'' = ''garia station''"
  "strip ''jadavpur'' = ''jadavpur''"
  "strip ''airport (nscbi)'' = ''airport (nscbi)''"
  "strip ''dunlop'' = ''dunlop''"
  "strip ''babughat'' = ''babughat''"
  "strip ''barasat'' = ''barasat''"
  "strip ''tollygunge'' = ''tollygunge''"
  "strip ''karunamoyee'' = ''karunamoyee''"
  "strip ''ruby hospital'' = ''ruby hospital''"
  "strip ''shyambazar'' = ''shyambazar''"
  "strip ''park circus'' = ''park circus''"
  "strip ''science city'' = ''science city''"
  "strip ''behala'' = ''behala''"
  "strip ''joka'' = ''joka''"
  "strip ''barrackpore'' = ''barrackpore''"
  "strip ''dum dum'' = ''dum dum''"
  "strip ''ultadanga'' = ''ultadanga''"
  "strip ''gariahat'' = ''gariahat''"
  "strip ''kalighat'' = ''kalighat''"
  "strip ''moulali'' = ''moulali''"
  "strip ''salt lake sector i'' = ''salt lake sector i''"
  "strip ''bbd bagh'' = ''bbd bagh''"
  "strip ''dankuni'' = ''dankuni''"
  "strip ''rashbehari'' = ''rashbehari''"
  "strip ''vip road'' = ''vip road''"
  "strip ''baruipur'' = ''baruipur''"
  "strip ''diamond harbour road'' = ''diamond harbour road''"
  "strip ''jessore road'' = ''jessore road''"
  "strip ''nicco park'' = ''nicco park''"
  "strip ''sonarpur'' = ''sonarpur''"
  "strip ''cit road'' = ''cit road''"
  "strip ''baranagar'' = ''baranagar''"
  "strip ''em bypass connector'' = ''em bypass connector''"
  "strip ''hatibagan'' = ''hatibagan''"
  "strip ''new alipore'' = ''new alipore''"
  "strip ''prince anwar shah road'' = ''prince anwar shah road''"
  "strip ''lake town'' = ''lake town''"
  "strip ''college street'' = ''college street''"
  "strip ''wireless crossing'' = ''wireless crossing''"
  "strip ''nabanna'' = ''nabanna''"
  "strip ''salt lake gate'' = ''salt lake gate''"
  "strip ''santoshpur'' = ''santoshpur''"
  "strip ''kona expressway'' = ''kona expressway''"
  "strip ''taratala'' = ''taratala''"
  "strip ''golf green'' = ''golf green''"
  "strip ''belur math'' = ''belur math''"
  "strip ''dakshineswar'' = ''dakshineswar''"
  "strip ''sovabazar'' = ''sovabazar''"
  "strip ''bhawanipur'' = ''bhawanipur''"
  "strip ''hazra'' = ''hazra''"
  "strip ''lansdowne'' = ''lansdowne''"
  "strip ''ballygunge'' = ''ballygunge''"
  "strip ''kasba'' = ''kasba''"
  "strip ''regent park'' = ''regent park''"
  "strip ''maniktala'' = ''maniktala''"
  "strip ''belgachia'' = ''belgachia''"
  "strip ''cossipore'' = ''cossipore''"
  "strip ''sodepur'' = ''sodepur''"
  "strip ''naihati'' = ''naihati''"
  "strip ''chandannagar'' = ''chandannagar''"
  "strip ''bally'' = ''bally''"
  "strip ''liluah'' = ''liluah''"
  "strip ''belgharia'' = ''belgharia''"
  "strip ''madhyamgram'' = ''madhyamgram''"
  "strip ''rajarhat'' = ''rajarhat''"
  "strip ''chinar park'' = ''chinar park''"
  "strip ''baguiati'' = ''baguiati''"
  "strip ''phoolbagan'' = ''phoolbagan''"
  "strip ''entally'' = ''entally''"
  "strip ''bow barracks'' = ''bow barracks''"
  "strip ''dharmatala'' = ''dharmatala''"
  "strip ''maidan'' = ''maidan''"
  "strip ''nandan'' = ''nandan''"
  "strip ''exide crossing'' = ''exide crossing''"
  "strip ''rabindra sadan'' = ''rabindra sadan''"
  by (simp_all add: strip_def is_space_def)

lemma match_stop_names:
  "match_stop ''Howrah Station'' = Some stop_hw"
  "match_stop ''Esplanade'' = Some stop_es"
  "match_stop ''Sealdah Station'' = Some stop_sd"
  "match_stop ''New Town City Centre'' = Some stop_nt"
  "match_stop ''Salt Lake Sector V'' = Some stop_sl5"
  "match_stop ''Garia Station'' = Some stop_ga"
  "match_stop ''Jadavpur'' = Some stop_jp"
  "match_stop ''Airport (NSCBI)'' = Some stop_ap"
  "match_stop ''Dunlop'' = Some stop_dl"
  "match_stop ''Babughat'' = Some stop_bb"
  "match_stop ''Barasat'' = Some stop_br"
  "match_stop ''Tollygunge'' = Some stop_tg"
  "match_stop ''Karunamoyee'' = Some stop_km"
  "match_stop ''Ruby Hospital'' = Some stop_rb"
  "match_stop ''Shyambazar'' = Some stop_sh"
  "match_stop ''Park Circus'' = Some stop_pc"
  "match_stop ''Science City'' = Some stop_sc"
  "match_stop ''Behala'' = Some stop_bh"
  "match_stop ''Joka'' = Some stop_jk"
  "match_stop ''Barrackpore'' = Some stop_bp"
  "match_stop ''Dum Dum'' = Some stop_dd"
  "match_stop ''Ultadanga'' = Some stop_ul"
  "match_stop ''Gariahat'' = Some stop_gh"
  "match_stop ''Kalighat'' = Some stop_kg"
  "match_stop ''Moulali'' = Some stop_ml"
  "match_stop ''Salt Lake Sector I'' = Some stop_sl1"
  "match_stop ''BBD Bagh'' = Some stop_bbd"
  "match_stop ''Dankuni'' = Some stop_dk"
  "match_stop ''Rashbehari'' = Some stop_rh"
  "match_stop ''VIP Road'' = Some stop_vip"
  "match_stop ''Baruipur'' = Some stop_by"
  "match_stop ''Diamond Harbour Road'' = Some stop_dh"
  "match_stop ''Jessore Road'' = Some stop_js"
  "match_stop ''Nicco Park'' = Some stop_np"
  "match_stop ''Sonarpur'' = Some stop_sr"
  "match_stop ''CIT Road'' = Some stop_ct"
  "match_stop ''Baranagar'' = Some stop_bn"
  "match_stop ''EM Bypass Connector'' = Some stop_eb"
  "match_stop ''Hatibagan'' = Some stop_ht"
  "match_stop ''New Alipore'' = Some stop_np2"
  "match_stop ''Prince Anwar Shah Road'' = Some stop_pb"
  "match_stop ''Lake Town'' = Some stop_lk"
  "match_stop ''College Street'' = Some stop_cg"
  "match_stop ''Wireless Crossing'' = Some stop_wr"
  "match_stop ''Nabanna'' = Some stop_nb"
  "match_stop ''Salt Lake Gate'' = Some stop_sg"
  "match_stop ''Santoshpur'' = Some stop_sb"
  "match_stop ''Kona Expressway'' = Some stop_kr"
  "match_stop ''Taratala'' = Some stop_tb"
  "match_stop ''Golf Green'' = Some stop_gl"
  "match_stop ''Belur Math'' = Some stop_blr"
  "match_stop ''Dakshineswar'' = Some stop_dks"
  "match_stop ''Sovabazar'' = Some stop_svb"
  "match_stop ''Bhawanipur'' = Some stop_bhw"
  "match_stop ''Hazra'' = Some stop_hz"
  "match_stop ''Lansdowne'' = Some stop_ld"
  "match_stop ''Ballygunge'' = Some stop_blg"
  "match_stop ''Kasba'' = Some stop_ksb"
  "match_stop ''Regent Park'' = Some stop_rp"
  "match_stop ''Maniktala'' = Some stop_mk"
  "match_stop ''Belgachia'' = Some stop_blc"
  "match_stop ''Cossipore'' = Some stop_csp"
  "match_stop ''Sodepur'' = Some stop_sdp"
  "match_stop ''Naihati'' = Some stop_nht"
  "match_stop ''Chandannagar'' = Some stop_chn"
  "match_stop ''Bally'' = Some stop_bly"
  "match_stop ''Liluah'' = Some stop_llh"
  "match_stop ''Belgharia'' = Some stop_belg"
  "match_stop ''Madhyamgram'' = Some stop_mdg"
  "match_stop ''Rajarhat'' = Some stop_rjh"
  "match_stop ''Chinar Park'' = Some stop_cnp"
  "match_stop ''Baguiati'' = Some stop_bgti"
  "match_stop ''Phoolbagan'' = Some stop_plb"
  "match_stop ''Entally'' = Some stop_ent"
  "match_stop ''Bow Barracks'' = Some stop_bwb"
  "match_stop ''Dharmatala'' = Some stop_dmt"
  "match_stop ''Maidan'' = Some stop_mdn"
  "match_stop ''Nandan'' = Some stop_ndn"
  "match_stop ''Exide Crossing'' = Some stop_exc"
  "match_stop ''Rabindra Sadan'' = Some stop_rbs"
  by (simp_all add: match_stop_def Let_def lower_names strip_lower_names BUS_STOPS_def stop_simps)

section \<open>Stop resolution: exact names, letter case, blank queries\<close>

lemma lower_upper_char: "lower_char (upper_char c) = lower_char c"
  by (simp add: lower_char_def upper_char_def upper_letters_def lower_letters_def)

lemma lower_lower_char: "lower_char (lower_char c) = lower_char c"
  by (simp add: lower_char_def upper_letters_def lower_letters_def)

lemma lower_upper: "lower (upper s) = lower s"
  by (simp add: lower_def upper_def lower_upper_char)

lemma lower_lower: "lower (lower s) = lower s"
  by (simp add: lower_def lower_lower_char)

lemma match_stop_upper: "match_stop (upper x) = match_stop x"
  by (simp add: match_stop_def lower_upper)

lemma match_stop_lower: "match_stop (lower x) = match_stop x"
  by (simp add: match_stop_def lower_lower)

lemma match_stop_catalog:
  "list_all (\<lambda>S. match_stop (sname S) = Some S) BUS_STOPS"
  by (simp add: BUS_STOPS_def stop_simps match_stop_names)











text \<open>
  C7: for every stop of the catalog, resolving its display name returns that stop, and so
  does resolving the display name in upper case and in lower case: the resolver ignores
  the letter case of any query.
\<close>

theorem resolve_exact_name:
  assumes "S \<in> set BUS_STOPS"
  shows "match_stop (sname S) = Some S
       \<and> match_stop (upper (sname S)) = Some S
       \<and> match_stop (lower (sname S)) = Some S
       \<and> match_stop (upper x) = match_stop (lower x)"
proof -
  from assms match_stop_catalog have "match_stop (sname S) = Some S"
    by (simp add: list_all_iff)
  then show ?thesis
    by (simp add: match_stop_upper match_stop_lower)
qed

theorem resolve_exact_name_witness:
  "stop_nt \<in> set BUS_STOPS
   \<and> match_stop ''New Town City Centre'' = Some stop_nt
   \<and> match_stop ''NEW TOWN CITY CENTRE'' = Some stop_nt
   \<and> match_stop ''new town city centre'' = Some stop_nt"
proof -
  have m: "stop_nt \<in> set BUS_STOPS"
    by (simp add: BUS_STOPS_def)
  have u: "upper ''New Town City Centre'' = ''NEW TOWN CITY CENTRE''"
    by (simp add: upper_def upper_char_def upper_letters_def lower_letters_def)
  have l: "lower ''New Town City Centre'' = ''new town city centre''"
    by (simp add: lower_names)
  have n: "sname stop_nt = ''New Town City Centre''"
    by (simp add: stop_simps)
  from resolve_exact_name [OF m, of "''x''"] m show ?thesis
    unfolding n u l by blast
qed



section \<open>Connections: ranking, size, direct before transfer\<close>

lemma common_routes_set:
  assumes "\<forall>l. set (ord l) = set l"
  shows "set (common_routes ord xs ys) = set xs \<inter> set ys"
  using assms by (auto simp: common_routes_def)

lemma direct_results_member:
  "c \<in> set (direct_results ord f t) \<longleftrightarrow>
   (\<exists>r\<in>set (common_routes ord (routes f) (routes t)). \<exists>ro. route_by_id r = Some ro
       \<and> c = direct_result f t ro)"
  by (auto simp: direct_results_def split: option.splits; metis)

lemma direct_result_fields:
  "ctype (direct_result f t ro) = ''direct''" "transfers (direct_result f t ro) = 0"
  "leg1_route (direct_result f t ro) = ro" "leg2_route (direct_result f t ro) = None"
  "transfer_stop (direct_result f t ro) = None"
  "estimated_fare (direct_result f t ro) = fare_min ro"
  "estimated_time_min (direct_result f t ro) = max 5 (py_int (flat_km f t * 3.5))"
  "from_stop (direct_result f t ro) = sname f" "to_stop (direct_result f t ro) = sname t"
  by (simp_all add: direct_result_def Let_def)

lemma transfer_result_fields:
  "ctype (transfer_result f m t r1 r2) = ''transfer''" "transfers (transfer_result f m t r1 r2) = 1"
  "leg2_route (transfer_result f m t r1 r2) = Some r2"
  "transfer_stop (transfer_result f m t r1 r2) = Some (sname m)"
  by (simp_all add: transfer_result_def Let_def)

lemma transfer_scan_member:
  "c \<in> set (transfer_scan ord f t mids seen) \<Longrightarrow>
   \<exists>m\<in>set mids. \<exists>r1 r2. c = transfer_result f m t r1 r2"
proof (induction mids arbitrary: seen)
  case Nil
  then show ?case by simp
next
  case (Cons mid_stop rest)
  from Cons.prems have "c \<in> set (transfer_scan ord f t rest seen)
      \<or> (\<exists>key. c \<in> set (transfer_scan ord f t rest (key # seen)))
      \<or> (\<exists>r1 r2. c = transfer_result f mid_stop t r1 r2)"
    by (auto simp: Let_def split: if_splits option.splits)
  with Cons.IH show ?case
    by auto
qed

lemma ranked_sorted:
  "sorted (map (\<lambda>x. (transfers x, estimated_time_min x))
             (take n (sort_key (\<lambda>x. (transfers x, estimated_time_min x)) xs)))"
proof -
  let ?k = "\<lambda>x. (transfers x, estimated_time_min x)"
  have "sorted (take n (map ?k (sort_key ?k xs)))"
    by (rule sorted_wrt_take) (rule sorted_sort_key)
  then show ?thesis
    by (simp add: take_map)
qed

lemma find_connections_direct:
  assumes "direct_results ord f t \<noteq> []"
  shows "find_connections ord f t =
         take 5 (sort_key (\<lambda>x. (transfers x, estimated_time_min x)) (direct_results ord f t))"
  using assms by (simp add: find_connections_def Let_def)

lemma find_connections_transfer:
  assumes "direct_results ord f t = []"
  shows "find_connections ord f t =
         take 5 (sort_key (\<lambda>x. (transfers x, estimated_time_min x))
                   (take 5 (sort_key estimated_time_min (transfer_scan ord f t BUS_STOPS []))))"
  using assms by (simp add: find_connections_def Let_def)

lemma take_sort_nonempty:
  "xs \<noteq> [] \<Longrightarrow> take 5 (sort_key k xs) \<noteq> []"
  by (cases "sort_key k xs") (auto simp: sort_key_def[symmetric] dest: arg_cong [where f = length])

text \<open>
  C4: the sequence returned for a pair of stops is sorted ascending by the pair
  (transfer count, estimated time) and has at most 5 entries.  When at least one direct
  result exists (some route id common to both stops is in the route table) the sequence
  is not empty, consists of direct results only, and is the first five of the ranked
  direct results; when none exists, every returned entry is a transfer result.
\<close>

theorem find_connections_ranking:
  "sorted (map (\<lambda>x. (transfers x, estimated_time_min x)) (find_connections ord f t))
   \<and> length (find_connections ord f t) \<le> 5
   \<and> ((\<forall>l. set (ord l) = set l) \<and> r \<in> set (routes f) \<and> r \<in> set (routes t)
        \<and> route_by_id r = Some ro \<longrightarrow> direct_results ord f t \<noteq> [])
   \<and> (direct_results ord f t \<noteq> [] \<longrightarrow>
        find_connections ord f t \<noteq> []
      \<and> find_connections ord f t =
          take 5 (sort_key (\<lambda>x. (transfers x, estimated_time_min x)) (direct_results ord f t))
      \<and> (\<forall>c\<in>set (find_connections ord f t).
            ctype c = ''direct'' \<and> transfers c = 0 \<and> leg2_route c = None
          \<and> transfer_stop c = None))
   \<and> (direct_results ord f t = [] \<longrightarrow>
        (\<forall>c\<in>set (find_connections ord f t). ctype c = ''transfer'' \<and> transfers c = 1))"
proof (intro conjI impI)
  show "sorted (map (\<lambda>x. (transfers x, estimated_time_min x)) (find_connections ord f t))"
    unfolding find_connections_def Let_def by (rule ranked_sorted)
  show "length (find_connections ord f t) \<le> 5"
    by (simp add: find_connections_def Let_def)
next
  assume h: "(\<forall>l. set (ord l) = set l) \<and> r \<in> set (routes f) \<and> r \<in> set (routes t)
        \<and> route_by_id r = Some ro"
  then have "r \<in> set (common_routes ord (routes f) (routes t))"
    by (simp add: common_routes_set)
  with h have "direct_result f t ro \<in> set (direct_results ord f t)"
    unfolding direct_results_member by blast
  then show "direct_results ord f t \<noteq> []"
    by auto
next
  assume d: "direct_results ord f t \<noteq> []"
  show e: "find_connections ord f t =
          take 5 (sort_key (\<lambda>x. (transfers x, estimated_time_min x)) (direct_results ord f t))"
    by (rule find_connections_direct [OF d])
  show "find_connections ord f t \<noteq> []"
    unfolding e by (rule take_sort_nonempty [OF d])
  show "\<forall>c\<in>set (find_connections ord f t).
            ctype c = ''direct'' \<and> transfers c = 0 \<and> leg2_route c = None
          \<and> transfer_stop c = None"
  proof
    fix c
    assume "c \<in> set (find_connections ord f t)"
    then have "c \<in> set (direct_results ord f t)"
      unfolding e using set_take_subset by fastforce
    then obtain ro' where "c = direct_result f t ro'"
      unfolding direct_results_member by blast
    then show "ctype c = ''direct'' \<and> transfers c = 0 \<and> leg2_route c = None
          \<and> transfer_stop c = None"
      by (simp add: direct_result_fields)
  qed
next
  assume d: "direct_results ord f t = []"
  show "\<forall>c\<in>set (find_connections ord f t). ctype c = ''transfer'' \<and> transfers c = 1"
  proof
    fix c
    assume "c \<in> set (find_connections ord f t)"
    then have "c \<in> set (take 5 (sort_key estimated_time_min (transfer_scan ord f t BUS_STOPS [])))"
      unfolding find_connections_transfer [OF d] using set_take_subset by fastforce
    then have "c \<in> set (transfer_scan ord f t BUS_STOPS [])"
      using set_take_subset by fastforce
    then obtain m r1 r2 where "c = transfer_result f m t r1 r2"
      using transfer_scan_member by blast
    then show "ctype c = ''transfer'' \<and> transfers c = 1"
      by (simp add: transfer_result_fields)
  qed
qed

lemma route_by_id_S12: "route_by_id ''S12'' = Some route_S12"
  by (simp add: route_by_id_def BUS_ROUTES_def route_simps)

theorem find_connections_ranking_witness:
  "''S12'' \<in> set (routes stop_hw) \<and> ''S12'' \<in> set (routes stop_nt)
   \<and> route_by_id ''S12'' = Some route_S12
   \<and> find_connections (\<lambda>l. l) stop_hw stop_nt \<noteq> []
   \<and> list_all (\<lambda>c. ctype c = ''direct'' \<and> transfers c = 0)
        (find_connections (\<lambda>l. l) stop_hw stop_nt)
   \<and> length (find_connections (\<lambda>l. l) stop_hw stop_nt) \<le> 5"
proof -
  have a: "''S12'' \<in> set (routes stop_hw)" "''S12'' \<in> set (routes stop_nt)"
    by (simp_all add: stop_simps)
  have o: "\<forall>l::string list. set ((\<lambda>l. l) l) = set l"
    by simp
  note T = find_connections_ranking [where ord = "\<lambda>l. l" and f = stop_hw and t = stop_nt
      and r = "''S12''" and ro = route_S12]
  from T a o route_by_id_S12 have d: "direct_results (\<lambda>l. l) stop_hw stop_nt \<noteq> []"
    by blast
  with T have n: "find_connections (\<lambda>l. l) stop_hw stop_nt \<noteq> []"
    and l: "length (find_connections (\<lambda>l. l) stop_hw stop_nt) \<le> 5"
    and e: "\<forall>c\<in>set (find_connections (\<lambda>l. l) stop_hw stop_nt).
            ctype c = ''direct'' \<and> transfers c = 0 \<and> leg2_route c = None
          \<and> transfer_stop c = None"
    by blast+
  from e have "list_all (\<lambda>c. ctype c = ''direct'' \<and> transfers c = 0)
        (find_connections (\<lambda>l. l) stop_hw stop_nt)"
    by (simp add: list_all_iff)
  with a route_by_id_S12 n l show ?thesis
    by (intro conjI)
qed

lemma strip_names:
  "strip ''Howrah Station'' = ''Howrah Station''"
  "strip ''Esplanade'' = ''Esplanade''"
  "strip ''Sealdah Station'' = ''Sealdah Station''"
  "strip ''New Town City Centre'' = ''New Town City Centre''"
  "strip ''Salt Lake Sector V'' = ''Salt Lake Sector V''"
  "strip ''Garia Station'' = ''Garia Station''"
  "strip ''Jadavpur'' = ''Jadavpur''"
  "strip ''Airport (NSCBI)'' = ''Airport (NSCBI)''"
  "strip ''Dunlop'' = ''Dunlop''"
  "strip ''Babughat'' = ''Babughat''"
  "strip ''Barasat'' = ''Barasat''"
  "strip ''Tollygunge'' = ''Tollygunge''"
  "strip ''Karunamoyee'' = ''Karunamoyee''"
  "strip ''Ruby Hospital'' = ''Ruby Hospital''"
  "strip ''Shyambazar'' = ''Shyambazar''"
  "strip ''Park Circus'' = ''Park Circus''"
  "strip ''Science City'' = ''Science City''"
  "strip ''Behala'' = ''Behala''"
  "strip ''Joka'' = ''Joka''"
  "strip ''Barrackpore'' = ''Barrackpore''"
  "strip ''Dum Dum'' = ''Dum Dum''"
  "strip ''Ultadanga'' = ''Ultadanga''"
  "strip ''Gariahat'' = ''Gariahat''"
  "strip ''Kalighat'' = ''Kalighat''"
  "strip ''Moulali'' = ''Moulali''"
  "strip ''Salt Lake Sector I'' = ''Salt Lake Sector I''"
  "strip ''BBD Bagh'' = ''BBD Bagh''"
  "strip ''Dankuni'' = ''Dankuni''"
  "strip ''Rashbehari'' = ''Rashbehari''"
  "strip ''VIP Road'' = ''VIP Road''"
  "strip ''Baruipur'' = ''Baruipur''"
  "strip ''Diamond Harbour Road'' = ''Diamond Harbour Road''"
  "strip ''Jessore Road'' = ''Jessore Road''"
  "strip ''Nicco Park'' = ''Nicco Park''"
  "strip ''Sonarpur'' = ''Sonarpur''"
  "strip ''CIT Road'' = ''CIT Road''"
  "strip ''Baranagar'' = ''Baranagar''"
  "strip ''EM Bypass Connector'' = ''EM Bypass Connector''"
  "strip ''Hatibagan'' = ''Hatibagan''"
  "strip ''New Alipore'' = ''New Alipore''"
  "strip ''Prince Anwar Shah Road'' = ''Prince Anwar Shah Road''"
  "strip ''Lake Town'' = ''Lake Town''"
  "strip ''College Street'' = ''College Street''"
  "strip ''Wireless Crossing'' = ''Wireless Crossing''"
  "strip ''Nabanna'' = ''Nabanna''"
  "strip ''Salt Lake Gate'' = ''Salt Lake Gate''"
  "strip ''Santoshpur'' = ''Santoshpur''"
  "strip ''Kona Expressway'' = ''Kona Expressway''"
  "strip ''Taratala'' = ''Taratala''"
  "strip ''Golf Green'' = ''Golf Green''"
  "strip ''Belur Math'' = ''Belur Math''"
  "strip ''Dakshineswar'' = ''Dakshineswar''"
  "strip ''Sovabazar'' = ''Sovabazar''"
  "strip ''Bhawanipur'' = ''Bhawanipur''"
  "strip ''Hazra'' = ''Hazra''"
  "strip ''Lansdowne'' = ''Lansdowne''"
  "strip ''Ballygunge'' = ''Ballygunge''"
  "strip ''Kasba'' = ''Kasba''"
  "strip ''Regent Park'' = ''Regent Park''"
  "strip ''Maniktala'' = ''Maniktala''"
  "strip ''Belgachia'' = ''Belgachia''"
  "strip ''Cossipore'' = ''Cossipore''"
  "strip ''Sodepur'' = ''Sodepur''"
  "strip ''Naihati'' = ''Naihati''"
  "strip ''Chandannagar'' = ''Chandannagar''"
  "strip ''Bally'' = ''Bally''"
  "strip ''Liluah'' = ''Liluah''"
  "strip ''Belgharia'' = ''Belgharia''"
  "strip ''Madhyamgram'' = ''Madhyamgram''"
  "strip ''Rajarhat'' = ''Rajarhat''"
  "strip ''Chinar Park'' = ''Chinar Park''"
  "strip ''Baguiati'' = ''Baguiati''"
  "strip ''Phoolbagan'' = ''Phoolbagan''"
  "strip ''Entally'' = ''Entally''"
  "strip ''Bow Barracks'' = ''Bow Barracks''"
  "strip ''Dharmatala'' = ''Dharmatala''"
  "strip ''Maidan'' = ''Maidan''"
  "strip ''Nandan'' = ''Nandan''"
  "strip ''Exide Crossing'' = ''Exide Crossing''"
  "strip ''Rabindra Sadan'' = ''Rabindra Sadan''"
  by (simp_all add: strip_def is_space_def)

lemma eta_alias_names:
  "map_of eta_aliases ''howrah station'' = None"
  "map_of eta_aliases ''esplanade'' = Some ''esplanade''"
  "map_of eta_aliases ''sealdah station'' = None"
  "map_of eta_aliases ''new town city centre'' = None"
  "map_of eta_aliases ''salt lake sector v'' = None"
  "map_of eta_aliases ''garia station'' = None"
  "map_of eta_aliases ''jadavpur'' = Some ''jadavpur''"
  "map_of eta_aliases ''airport (nscbi)'' = None"
  "map_of eta_aliases ''dunlop'' = Some ''dunlop''"
  "map_of eta_aliases ''babughat'' = Some ''babughat''"
  "map_of eta_aliases ''barasat'' = Some ''barasat''"
  "map_of eta_aliases ''tollygunge'' = Some ''tollygunge''"
  "map_of eta_aliases ''karunamoyee'' = Some ''karunamoyee''"
  "map_of eta_aliases ''ruby hospital'' = None"
  "map_of eta_aliases ''shyambazar'' = Some ''shyambazar''"
  "map_of eta_aliases ''park circus'' = Some ''park circus''"
  "map_of eta_aliases ''science city'' = Some ''science city''"
  "map_of eta_aliases ''behala'' = Some ''behala''"
  "map_of eta_aliases ''joka'' = Some ''joka''"
  "map_of eta_aliases ''barrackpore'' = Some ''barrackpore''"
  "map_of eta_aliases ''dum dum'' = Some ''dum dum''"
  "map_of eta_aliases ''ultadanga'' = Some ''ultadanga''"
  "map_of eta_aliases ''gariahat'' = Some ''gariahat''"
  "map_of eta_aliases ''kalighat'' = None"
  "map_of eta_aliases ''moulali'' = Some ''moulali''"
  "map_of eta_aliases ''salt lake sector i'' = None"
  "map_of eta_aliases ''bbd bagh'' = Some ''bbd bagh''"
  "map_of eta_aliases ''dankuni'' = None"
  "map_of eta_aliases ''rashbehari'' = None"
  "map_of eta_aliases ''vip road'' = None"
  "map_of eta_aliases ''baruipur'' = None"
  "map_of eta_aliases ''diamond harbour road'' = None"
  "map_of eta_aliases ''jessore road'' = None"
  "map_of eta_aliases ''nicco park'' = Some ''nicco park''"
  "map_of eta_aliases ''sonarpur'' = None"
  "map_of eta_aliases ''cit road'' = None"
  "map_of eta_aliases ''baranagar'' = None"
  "map_of eta_aliases ''em bypass connector'' = None"
  "map_of eta_aliases ''hatibagan'' = None"
  "map_of eta_aliases ''new alipore'' = None"
  "map_of eta_aliases ''prince anwar shah road'' = None"
  "map_of eta_aliases ''lake town'' = None"
  "map_of eta_aliases ''college street'' = None"
  "map_of eta_aliases ''wireless crossing'' = None"
  "map_of eta_aliases ''nabanna'' = None"
  "map_of eta_aliases ''salt lake gate'' = None"
  "map_of eta_aliases ''santoshpur'' = None"
  "map_of eta_aliases ''kona expressway'' = None"
  "map_of eta_aliases ''taratala'' = None"
  "map_of eta_aliases ''golf green'' = None"
  "map_of eta_aliases ''belur math'' = Some ''belur math''"
  "map_of eta_aliases ''dakshineswar'' = Some ''dakshineswar''"
  "map_of eta_aliases ''sovabazar'' = Some ''sovabazar''"
  "map_of eta_aliases ''bhawanipur'' = Some ''bhawanipur''"
  "map_of eta_aliases ''hazra'' = Some ''hazra''"
  "map_of eta_aliases ''lansdowne'' = Some ''lansdowne''"
  "map_of eta_aliases ''ballygunge'' = Some ''ballygunge''"
  "map_of eta_aliases ''kasba'' = Some ''kasba''"
  "map_of eta_aliases ''regent park'' = Some ''regent park''"
  "map_of eta_aliases ''maniktala'' = Some ''maniktala''"
  "map_of eta_aliases ''belgachia'' = Some ''belgachia''"
  "map_of eta_aliases ''cossipore'' = Some ''cossipore''"
  "map_of eta_aliases ''sodepur'' = Some ''sodepur''"
  "map_of eta_aliases ''naihati'' = Some ''naihati''"
  "map_of eta_aliases ''chandannagar'' = Some ''chandannagar''"
  "map_of eta_aliases ''bally'' = Some ''bally''"
  "map_of eta_aliases ''liluah'' = Some ''liluah''"
  "map_of eta_aliases ''belgharia'' = Some ''belgharia''"
  "map_of eta_aliases ''madhyamgram'' = Some ''madhyamgram''"
  "map_of eta_aliases ''rajarhat'' = Some ''rajarhat''"
  "map_of eta_aliases ''chinar park'' = Some ''chinar park''"
  "map_of eta_aliases ''baguiati'' = Some ''baguiati''"
  "map_of eta_aliases ''phoolbagan'' = Some ''phoolbagan''"
  "map_of eta_aliases ''entally'' = Some ''entally''"
  "map_of eta_aliases ''bow barracks'' = None"
  "map_of eta_aliases ''dharmatala'' = Some ''dharmatala''"
  "map_of eta_aliases ''maidan'' = Some ''maidan''"
  "map_of eta_aliases ''nandan'' = Some ''nandan''"
  "map_of eta_aliases ''exide crossing'' = None"
  "map_of eta_aliases ''rabindra sadan'' = Some ''rabindra sadan''"
  by (simp_all add: eta_aliases_def)

lemma smart_eta_dest_names:
  "smart_eta_dest ''Howrah Station'' = Some stop_hw"
  "smart_eta_dest ''Esplanade'' = Some stop_es"
  "smart_eta_dest ''Sealdah Station'' = Some stop_sd"
  "smart_eta_dest ''New Town City Centre'' = Some stop_nt"
  "smart_eta_dest ''Salt Lake Sector V'' = Some stop_sl5"
  "smart_eta_dest ''Garia Station'' = Some stop_ga"
  "smart_eta_dest ''Jadavpur'' = Some stop_jp"
  "smart_eta_dest ''Airport (NSCBI)'' = Some stop_ap"
  "smart_eta_dest ''Dunlop'' = Some stop_dl"
  "smart_eta_dest ''Babughat'' = Some stop_bb"
  "smart_eta_dest ''Barasat'' = Some stop_br"
  "smart_eta_dest ''Tollygunge'' = Some stop_tg"
  "smart_eta_dest ''Karunamoyee'' = Some stop_km"
  "smart_eta_dest ''Ruby Hospital'' = Some stop_rb"
  "smart_eta_dest ''Shyambazar'' = Some stop_sh"
  "smart_eta_dest ''Park Circus'' = Some stop_pc"
  "smart_eta_dest ''Science City'' = Some stop_sc"
  "smart_eta_dest ''Behala'' = Some stop_bh"
  "smart_eta_dest ''Joka'' = Some stop_jk"
  "smart_eta_dest ''Barrackpore'' = Some stop_bp"
  "smart_eta_dest ''Dum Dum'' = Some stop_dd"
  "smart_eta_dest ''Ultadanga'' = Some stop_ul"
  "smart_eta_dest ''Gariahat'' = Some stop_gh"
  "smart_eta_dest ''Kalighat'' = Some stop_kg"
  "smart_eta_dest ''Moulali'' = Some stop_ml"
  "smart_eta_dest ''Salt Lake Sector I'' = Some stop_sl1"
  "smart_eta_dest ''BBD Bagh'' = Some stop_bbd"
  "smart_eta_dest ''Dankuni'' = Some stop_dk"
  "smart_eta_dest ''Rashbehari'' = Some stop_rh"
  "smart_eta_dest ''VIP Road'' = Some stop_vip"
  "smart_eta_dest ''Baruipur'' = Some stop_by"
  "smart_eta_dest ''Diamond Harbour Road'' = Some stop_dh"
  "smart_eta_dest ''Jessore Road'' = Some stop_js"
  "smart_eta_dest ''Nicco Park'' = Some stop_np"
  "smart_eta_dest ''Sonarpur'' = Some stop_sr"
  "smart_eta_dest ''CIT Road'' = Some stop_ct"
  "smart_eta_dest ''Baranagar'' = Some stop_bn"
  "smart_eta_dest ''EM Bypass Connector'' = Some stop_eb"
  "smart_eta_dest ''Hatibagan'' = Some stop_ht"
  "smart_eta_dest ''New Alipore'' = Some stop_np2"
  "smart_eta_dest ''Prince Anwar Shah Road'' = Some stop_pb"
  "smart_eta_dest ''Lake Town'' = Some stop_lk"
  "smart_eta_dest ''College Street'' = Some stop_cg"
  "smart_eta_dest ''Wireless Crossing'' = Some stop_wr"
  "smart_eta_dest ''Nabanna'' = Some stop_nb"
  "smart_eta_dest ''Salt Lake Gate'' = Some stop_sg"
  "smart_eta_dest ''Santoshpur'' = Some stop_sb"
  "smart_eta_dest ''Kona Expressway'' = Some stop_kr"
  "smart_eta_dest ''Taratala'' = Some stop_tb"
  "smart_eta_dest ''Golf Green'' = Some stop_gl"
  "smart_eta_dest ''Belur Math'' = Some stop_blr"
  "smart_eta_dest ''Dakshineswar'' = Some stop_dks"
  "smart_eta_dest ''Sovabazar'' = Some stop_svb"
  "smart_eta_dest ''Bhawanipur'' = Some stop_bhw"
  "smart_eta_dest ''Hazra'' = Some stop_hz"
  "smart_eta_dest ''Lansdowne'' = Some stop_ld"
  "smart_eta_dest ''Ballygunge'' = Some stop_blg"
  "smart_eta_dest ''Kasba'' = Some stop_ksb"
  "smart_eta_dest ''Regent Park'' = Some stop_rp"
  "smart_eta_dest ''Maniktala'' = Some stop_mk"
  "smart_eta_dest ''Belgachia'' = Some stop_blc"
  "smart_eta_dest ''Cossipore'' = Some stop_csp"
  "smart_eta_dest ''Sodepur'' = Some stop_sdp"
  "smart_eta_dest ''Naihati'' = Some stop_nht"
  "smart_eta_dest ''Chandannagar'' = Some stop_chn"
  "smart_eta_dest ''Bally'' = Some stop_blg"
  "smart_eta_dest ''Liluah'' = Some stop_llh"
  "smart_eta_dest ''Belgharia'' = Some stop_belg"
  "smart_eta_dest ''Madhyamgram'' = Some stop_mdg"
  "smart_eta_dest ''Rajarhat'' = Some stop_rjh"
  "smart_eta_dest ''Chinar Park'' = Some stop_cnp"
  "smart_eta_dest ''Baguiati'' = Some stop_bgti"
  "smart_eta_dest ''Phoolbagan'' = Some stop_plb"
  "smart_eta_dest ''Entally'' = Some stop_ent"
  "smart_eta_dest ''Bow Barracks'' = Some stop_bwb"
  "smart_eta_dest ''Dharmatala'' = Some stop_dmt"
  "smart_eta_dest ''Maidan'' = Some stop_mdn"
  "smart_eta_dest ''Nandan'' = Some stop_ndn"
  "smart_eta_dest ''Exide Crossing'' = Some stop_exc"
  "smart_eta_dest ''Rabindra Sadan'' = Some stop_rbs"
  by (simp_all add: smart_eta_dest_def Let_def strip_names lower_names eta_alias_names
        BUS_STOPS_def stop_simps sublist_code)

end
